theory Spec2Isabelle
  imports Complex_Main "HOL-Library.AList"
begin

section \<open>Overview\<close>

text \<open>
  A shallow embedding of the pipeline of the Workflow repository: the retry handler, the
  rate limiter and the performance monitor of \<open>utils.py\<close>, the configuration loader of
  \<open>config.py\<close>, the storyboard parser and the video synthesis call of
  \<open>video_generator.py\<close>, and the orchestrator of \<open>main.py\<close>. Network services, the
  clock, the random source and the library functions \<open>json.loads\<close>, \<open>int\<close> and
  \<open>str.upper\<close> are parameters of the functions that use them. An exception is a value:
  a function that can raise returns a sum, \<open>Inl\<close> holding what was raised. Python floats
  are idealised as reals. The definitions come first, the properties after them.
\<close>

section \<open>Python values\<close>

text \<open>The built-in exceptions that the modelled code can raise or has to catch.\<close>

datatype py_exn = IndexError | KeyError | TypeError | AttributeError | JSONDecodeError

section \<open>RetryHandler (utils.py)\<close>



























section \<open>RateLimiter (utils.py)\<close>










section \<open>PerformanceMonitor (utils.py)\<close>

text \<open>
  \<open>checkpoints\<close> is a Python dict from checkpoint name to elapsed seconds. A dict keeps its
  keys in the order of their first insertion and assigning to a present key replaces the
  value in place, which is what \<open>AList.update\<close> does on an association list.
\<close>

record PerformanceMonitor =
  start_time :: "real option"
  checkpoints :: "(string \<times> real) list"

definition new_monitor :: PerformanceMonitor where
  "new_monitor = \<lparr>start_time = None, checkpoints = []\<rparr>"

definition start :: "PerformanceMonitor \<Rightarrow> real \<Rightarrow> PerformanceMonitor" where
  "start mon clock = mon\<lparr>start_time := Some clock, checkpoints := []\<rparr>"

text \<open>
  \<open>checkpoint(name)\<close> reads the clock for \<open>start_time\<close> only when \<open>start_time\<close> is
  \<open>None\<close> (\<open>clock0\<close>), and then once more for \<open>current_time\<close> (\<open>clock\<close>).
\<close>

definition checkpoint ::
  "PerformanceMonitor \<Rightarrow> string \<Rightarrow> real \<Rightarrow> real \<Rightarrow> PerformanceMonitor" where
  "checkpoint mon name clock0 clock =
     (let st = (case start_time mon of None \<Rightarrow> clock0 | Some s \<Rightarrow> s);
          current_time = clock
      in mon\<lparr>start_time := Some st,
             checkpoints := AList.update name (current_time - st) (checkpoints mon)\<rparr>)"

text \<open>A sequence of \<open>checkpoint\<close> calls, each with its name and the clock it reads.\<close>

fun checkpoint_calls ::
  "PerformanceMonitor \<Rightarrow> (string \<times> real) list \<Rightarrow> PerformanceMonitor" where
  "checkpoint_calls mon [] = mon"
| "checkpoint_calls mon ((name, clock) # cps) =
     checkpoint_calls (checkpoint mon name clock clock) cps"

text \<open>The \<open>for name, time_elapsed in self.checkpoints.items()\<close> loop of \<open>get_summary\<close>.\<close>

fun summary_loop ::
  "(string \<times> real) list \<Rightarrow> real \<Rightarrow> (string \<times> real) list \<Rightarrow> (string \<times> real) list" where
  "summary_loop [] prev_time summary = summary"
| "summary_loop ((name, time_elapsed) # items) prev_time summary =
     summary_loop items time_elapsed
       (AList.update (name @ ''_duration'') (time_elapsed - prev_time) summary)"

text \<open>
  Python's \<open>max\<close> over a sequence keeps the first of the largest values. It raises on an
  empty sequence; \<open>get_summary\<close> calls it on a non-empty one only.
\<close>

fun py_max :: "real list \<Rightarrow> real" where
  "py_max [] = 0"
| "py_max (x # xs) = fold (\<lambda>y m. if m < y then y else m) xs x"

definition get_summary :: "PerformanceMonitor \<Rightarrow> (string \<times> real) list" where
  "get_summary mon =
     (if checkpoints mon = [] then []
      else (let summary = summary_loop (checkpoints mon) 0 []
            in AList.update ''total_duration''
                 (if checkpoints mon \<noteq> [] then py_max (map snd (checkpoints mon)) else 0)
                 summary))"

text \<open>The differences of consecutive values, the first one taken from \<open>prev\<close>.\<close>

fun deltas :: "real \<Rightarrow> real list \<Rightarrow> real list" where
  "deltas prev [] = []"
| "deltas prev (t # ts) = (t - prev) # deltas t ts"

definition dur_key :: "string \<Rightarrow> string" where
  "dur_key name = name @ ''_duration''"

text \<open>Concrete checkpoint sequences.\<close>

definition search_then_read :: "(string \<times> real) list" where
  "search_then_read = [(''search'', 2), (''read'', 5)]"

definition total_then_b :: "(string \<times> real) list" where
  "total_then_b = [(''total'', 1), (''b'', 3)]"

definition a_b_a_again :: "(string \<times> real) list" where
  "a_b_a_again = [(''a'', 1), (''b'', 2), (''a'', 3)]"

section \<open>Configuration (config.py)\<close>

text \<open>
  The \<open>Config\<close> dataclass. Its fields \<open>sort\<close> and \<open>max_retries\<close> carry the suffix
  \<open>_cfg\<close> here, since those names are taken.
\<close>

record Config =
  xhs_cookie :: string
  llm_api_key :: string
  llm_base_url :: string
  notion_token :: string
  original_database_id :: string
  processed_database_id :: string
  doubao_api_key :: string
  doubao_base_url :: string
  video_output_dir :: string
  default_scene_count :: int
  video_resolution :: string
  video_style :: string
  note_type :: int
  sort_cfg :: int
  total_number :: int
  log_level :: string
  request_timeout :: int
  max_retries_cfg :: int

text \<open>
  Every failure of \<open>get_config\<close> is a Python \<open>ValueError\<close>: the list of missing
  settings, a string that \<open>int()\<close> rejects, or one of the six checks of
  \<open>_validate_config\<close>.
\<close>

datatype config_error =
    MissingConfigs "string list"
  | InvalidLiteral string
  | BadNoteType
  | BadSort
  | BadTotalNumber
  | BadLogLevel
  | BadRequestTimeout
  | BadMaxRetries

text \<open>
  \<open>os.environ\<close> after \<open>_load_env_file\<close> has run. \<open>getenv\<close> is
  \<open>os.getenv(key, default)\<close>; \<open>not_set\<close> is the test \<open>not os.getenv(key)\<close>, true of an
  absent and of an empty value.
\<close>

type_synonym environ = "string \<Rightarrow> string option"

definition getenv :: "environ \<Rightarrow> string \<Rightarrow> string \<Rightarrow> string" where
  "getenv env key dflt = (case env key of None \<Rightarrow> dflt | Some v \<Rightarrow> v)"

definition required_configs :: "string list" where
  "required_configs =
     [''XHS_COOKIE'', ''LLM_API_KEY'', ''NOTION_TOKEN'', ''ORIGINAL_DATABASE_ID'',
      ''PROCESSED_DATABASE_ID'', ''DOUBAO_API_KEY'']"

definition not_set :: "environ \<Rightarrow> string \<Rightarrow> bool" where
  "not_set env key = (case env key of None \<Rightarrow> True | Some v \<Rightarrow> v = [])"

definition valid_log_levels :: "string list" where
  "valid_log_levels = [''DEBUG'', ''INFO'', ''WARNING'', ''ERROR'']"

text \<open>
  \<open>_validate_config\<close>, with Python's \<open>str.upper\<close> as the parameter \<open>upper\<close>.
\<close>

definition validate_config :: "(string \<Rightarrow> string) \<Rightarrow> Config \<Rightarrow> config_error + unit" where
  "validate_config upper config =
     (if note_type config \<notin> set [0, 1, 2] then Inl BadNoteType
      else if sort_cfg config \<notin> set [0, 1, 2] then Inl BadSort
      else if total_number config \<le> 0 then Inl BadTotalNumber
      else if upper (log_level config) \<notin> set valid_log_levels then Inl BadLogLevel
      else if request_timeout config \<le> 0 then Inl BadRequestTimeout
      else if max_retries_cfg config < 0 then Inl BadMaxRetries
      else Inr ())"

text \<open>
  \<open>get_config\<close>, with Python's \<open>int()\<close> on a string as the parameter \<open>py_int\<close>
  (\<open>None\<close> where it raises). The six conversions happen in the order of the keyword
  arguments of \<open>Config(...)\<close>. The required values are read with \<open>os.getenv(key)\<close>
  after the check that they are set.
\<close>

definition to_int :: "(string \<Rightarrow> int option) \<Rightarrow> string \<Rightarrow> config_error + int" where
  "to_int py_int s = (case py_int s of None \<Rightarrow> Inl (InvalidLiteral s) | Some i \<Rightarrow> Inr i)"

definition get_config ::
  "(string \<Rightarrow> int option) \<Rightarrow> (string \<Rightarrow> string) \<Rightarrow> environ \<Rightarrow> config_error + Config" where
  "get_config py_int upper env =
     (let missing_configs = filter (not_set env) required_configs
      in if missing_configs \<noteq> [] then Inl (MissingConfigs missing_configs)
         else
           case to_int py_int (getenv env ''DEFAULT_SCENE_COUNT'' ''3'') of Inl e \<Rightarrow> Inl e | Inr dsc \<Rightarrow>
           case to_int py_int (getenv env ''NOTE_TYPE'' ''2'') of Inl e \<Rightarrow> Inl e | Inr nt \<Rightarrow>
           case to_int py_int (getenv env ''SORT'' ''2'') of Inl e \<Rightarrow> Inl e | Inr so \<Rightarrow>
           case to_int py_int (getenv env ''TOTAL_NUMBER'' ''2'') of Inl e \<Rightarrow> Inl e | Inr tn \<Rightarrow>
           case to_int py_int (getenv env ''REQUEST_TIMEOUT'' ''30'') of Inl e \<Rightarrow> Inl e | Inr rt \<Rightarrow>
           case to_int py_int (getenv env ''MAX_RETRIES'' ''3'') of Inl e \<Rightarrow> Inl e | Inr mr \<Rightarrow>
           (let config = \<lparr>
                  xhs_cookie = the (env ''XHS_COOKIE''),
                  llm_api_key = the (env ''LLM_API_KEY''),
                  llm_base_url = getenv env ''LLM_BASE_URL'' ''https://api.deepseek.com'',
                  notion_token = the (env ''NOTION_TOKEN''),
                  original_database_id = the (env ''ORIGINAL_DATABASE_ID''),
                  processed_database_id = the (env ''PROCESSED_DATABASE_ID''),
                  doubao_api_key = the (env ''DOUBAO_API_KEY''),
                  doubao_base_url =
                    getenv env ''DOUBAO_BASE_URL'' ''https://ark.cn-beijing.volces.com/api/v3'',
                  video_output_dir = getenv env ''VIDEO_OUTPUT_DIR'' ''videos'',
                  default_scene_count = dsc,
                  video_resolution = getenv env ''VIDEO_RESOLUTION'' ''720p'',
                  video_style = getenv env ''VIDEO_STYLE'' ''realistic'',
                  note_type = nt,
                  sort_cfg = so,
                  total_number = tn,
                  log_level = getenv env ''LOG_LEVEL'' ''INFO'',
                  request_timeout = rt,
                  max_retries_cfg = mr\<rparr>
            in case validate_config upper config of
                 Inl e \<Rightarrow> Inl e
               | Inr u \<Rightarrow> Inr config))"

text \<open>
  \<open>main\<close> up to the call of the workflow: the configuration is loaded (and loaded again by
  \<open>print_config_summary\<close>) before the keyword is read and the processor is built; a
  \<open>ValueError\<close> is printed and \<open>main\<close> returns. \<open>keyword\<close> is the stripped input line.
\<close>

datatype 'r main_result = ConfigErrorPrinted config_error | EmptyKeyword | WorkflowResult 'r

definition main ::
  "(string \<Rightarrow> int option) \<Rightarrow> (string \<Rightarrow> string) \<Rightarrow> environ \<Rightarrow> string
     \<Rightarrow> (Config \<Rightarrow> string \<Rightarrow> 'r) \<Rightarrow> 'r main_result" where
  "main py_int upper env keyword run_workflow =
     (case get_config py_int upper env of
        Inl e \<Rightarrow> ConfigErrorPrinted e
      | Inr config \<Rightarrow>
          (case get_config py_int upper env of
             Inl e \<Rightarrow> ConfigErrorPrinted e
           | Inr printed \<Rightarrow>
               if keyword = [] then EmptyKeyword
               else WorkflowResult (run_workflow config keyword)))"

text \<open>
  Stand-ins for \<open>int()\<close> and \<open>str.upper\<close> on concrete inputs: they agree with Python on
  plain decimal literals with an optional minus sign, and on ASCII letters.
\<close>

definition digit_val :: "char \<Rightarrow> int option" where
  "digit_val c = map_of (zip ''0123456789'' [0, 1, 2, 3, 4, 5, 6, 7, 8, 9]) c"

fun dec_digits :: "string \<Rightarrow> int \<Rightarrow> int option" where
  "dec_digits [] acc = Some acc"
| "dec_digits (c # cs) acc =
     (case digit_val c of None \<Rightarrow> None | Some d \<Rightarrow> dec_digits cs (10 * acc + d))"

definition dec_int :: "string \<Rightarrow> int option" where
  "dec_int s =
     (case s of
        [] \<Rightarrow> None
      | c # cs \<Rightarrow>
          if c = CHR ''-'' then (if cs = [] then None else map_option uminus (dec_digits cs 0))
          else dec_digits s 0)"

definition ascii_upper :: "string \<Rightarrow> string" where
  "ascii_upper s =
     map (\<lambda>c. case map_of (zip ''abcdefghijklmnopqrstuvwxyz'' ''ABCDEFGHIJKLMNOPQRSTUVWXYZ'') c of
                None \<Rightarrow> c | Some u \<Rightarrow> u) s"

text \<open>Concrete environments.\<close>

definition env_required :: "(string \<times> string) list" where
  "env_required =
     [(''XHS_COOKIE'', ''a1=x''), (''LLM_API_KEY'', ''sk-1''), (''NOTION_TOKEN'', ''secret''),
      (''ORIGINAL_DATABASE_ID'', ''db1''), (''PROCESSED_DATABASE_ID'', ''db2''),
      (''DOUBAO_API_KEY'', ''key'')]"

definition env_minimal :: environ where
  "env_minimal = map_of env_required"

definition env_no_retries :: environ where
  "env_no_retries = map_of ((''MAX_RETRIES'', ''0'') # (''LOG_LEVEL'', ''debug'') # env_required)"

definition env_bad_note_type :: environ where
  "env_bad_note_type = map_of ((''NOTE_TYPE'', ''5'') # env_required)"

definition echo_workflow :: "Config \<Rightarrow> string \<Rightarrow> string" where
  "echo_workflow config keyword = keyword"

definition default_config :: Config where
  "default_config = \<lparr>
     xhs_cookie = ''a1=x'',
     llm_api_key = ''sk-1'',
     llm_base_url = ''https://api.deepseek.com'',
     notion_token = ''secret'',
     original_database_id = ''db1'',
     processed_database_id = ''db2'',
     doubao_api_key = ''key'',
     doubao_base_url = ''https://ark.cn-beijing.volces.com/api/v3'',
     video_output_dir = ''videos'',
     default_scene_count = 3,
     video_resolution = ''720p'',
     video_style = ''realistic'',
     note_type = 2,
     sort_cfg = 2,
     total_number = 2,
     log_level = ''INFO'',
     request_timeout = 30,
     max_retries_cfg = 3\<rparr>"

section \<open>StoryboardGenerator (video_generator.py)\<close>

text \<open>
  The values \<open>json.loads\<close> and \<open>response.json()\<close> produce. A dict is an association list
  whose first entry for a key is the one a lookup finds.
\<close>

datatype json =
    JNull
  | JBool bool
  | JInt int
  | JFloat real
  | JStr string
  | JArr "json list"
  | JObj "(string \<times> json) list"

text \<open>
  The \<open>StoryboardScene\<close> dataclass. Nothing checks the annotated field types at run time,
  so a field holds whatever value the payload has under that key.
\<close>

record StoryboardScene =
  scene_id :: json
  scene_title :: json
  scene_description :: json
  duration :: json
  visual_elements :: json
  text_overlay :: json
  background_music :: json
  transition_effect :: json

text \<open>The three \<open>logger.error\<close> calls of \<open>_parse_storyboard_response\<close>.\<close>

datatype log_record = NoJsonFound | JsonDecodeFailed | ParseFailed py_exn

text \<open>
  \<open>str.find\<close> and \<open>str.rfind\<close> for a one-character needle (\<open>-1\<close> when it does not
  occur), and the slice \<open>s[i:j]\<close> for indices that are not negative.
\<close>

fun find_char :: "char \<Rightarrow> string \<Rightarrow> int" where
  "find_char c [] = - 1"
| "find_char c (x # xs) =
     (if x = c then 0
      else (let r = find_char c xs in if r = - 1 then - 1 else r + 1))"

definition rfind_char :: "char \<Rightarrow> string \<Rightarrow> int" where
  "rfind_char c s =
     (let r = find_char c (rev s) in if r = - 1 then - 1 else int (length s) - 1 - r)"

definition slice :: "string \<Rightarrow> int \<Rightarrow> int \<Rightarrow> string" where
  "slice s i j = drop (nat i) (take (nat j) s)"

text \<open>
  \<open>d.get(key, default)\<close> raises \<open>AttributeError\<close> unless \<open>d\<close> is a dict. A \<open>for\<close> loop
  over a list runs through its elements, over a string through its characters, over a
  dict through its keys, and raises \<open>TypeError\<close> on anything else.
\<close>

definition dict_get :: "json \<Rightarrow> string \<Rightarrow> json \<Rightarrow> py_exn + json" where
  "dict_get d key dflt =
     (case d of
        JObj kvs \<Rightarrow> (case map_of kvs key of None \<Rightarrow> Inr dflt | Some v \<Rightarrow> Inr v)
      | _ \<Rightarrow> Inl AttributeError)"

definition iterate :: "json \<Rightarrow> py_exn + json list" where
  "iterate v =
     (case v of
        JArr xs \<Rightarrow> Inr xs
      | JStr s \<Rightarrow> Inr (map (\<lambda>c. JStr [c]) s)
      | JObj kvs \<Rightarrow> Inr (map (\<lambda>kv. JStr (fst kv)) kvs)
      | _ \<Rightarrow> Inl TypeError)"

definition field :: "(string \<times> json) list \<Rightarrow> string \<Rightarrow> json \<Rightarrow> json" where
  "field kvs key dflt = (case map_of kvs key of None \<Rightarrow> dflt | Some v \<Rightarrow> v)"

text \<open>The scene built from one entry of the payload, with the defaults of the source.\<close>

definition scene_of_fields :: "(string \<times> json) list \<Rightarrow> StoryboardScene" where
  "scene_of_fields kvs = \<lparr>
     scene_id = field kvs ''scene_id'' (JStr ''''),
     scene_title = field kvs ''scene_title'' (JStr ''''),
     scene_description = field kvs ''scene_description'' (JStr ''''),
     duration = field kvs ''duration'' (JInt 8),
     visual_elements = field kvs ''visual_elements'' (JArr []),
     text_overlay = field kvs ''text_overlay'' (JStr ''''),
     background_music = field kvs ''background_music'' (JStr ''''),
     transition_effect = field kvs ''transition_effect'' (JStr '''')\<rparr>"

text \<open>
  The \<open>for scene_data in ...\<close> loop with its accumulator \<open>scenes\<close>; \<open>scene_data.get\<close>
  raises on an entry that is not a dict.
\<close>

fun build_scenes :: "json list \<Rightarrow> StoryboardScene list \<Rightarrow> py_exn + StoryboardScene list" where
  "build_scenes [] scenes = Inr scenes"
| "build_scenes (scene_data # rest) scenes =
     (case scene_data of
        JObj kvs \<Rightarrow> build_scenes rest (scenes @ [scene_of_fields kvs])
      | _ \<Rightarrow> Inl AttributeError)"

text \<open>
  The body of the \<open>try\<close> of \<open>_parse_storyboard_response\<close>, with \<open>json.loads\<close> as the
  parameter \<open>loads\<close> (\<open>None\<close> where it raises \<open>JSONDecodeError\<close>). The argument is whatever
  the caller found under \<open>content\<close>; \<open>response_text.find\<close> raises unless it is a string.
\<close>

definition parse_try ::
  "(string \<Rightarrow> json option) \<Rightarrow> json \<Rightarrow> py_exn + (StoryboardScene list \<times> log_record list)" where
  "parse_try loads response_text =
     (case response_text of
        JStr text \<Rightarrow>
          (let json_start = find_char CHR ''{'' text;
               json_end = rfind_char CHR ''}'' text + 1
           in if json_start = - 1 \<or> json_end = 0 then Inr ([], [NoJsonFound])
              else (case loads (slice text json_start json_end) of
                      None \<Rightarrow> Inl JSONDecodeError
                    | Some data \<Rightarrow>
                        (case dict_get data ''scenes'' (JArr []) of
                           Inl e \<Rightarrow> Inl e
                         | Inr v \<Rightarrow>
                             (case iterate v of
                                Inl e \<Rightarrow> Inl e
                              | Inr items \<Rightarrow>
                                  (case build_scenes items [] of
                                     Inl e \<Rightarrow> Inl e
                                   | Inr scenes \<Rightarrow> Inr (scenes, []))))))
      | _ \<Rightarrow> Inl AttributeError)"

text \<open>
  \<open>_parse_storyboard_response\<close>: the two \<open>except\<close> clauses log and return the empty list.
  The result is a sum so that raising to the caller could be expressed; it returns the
  scenes and what was logged.
\<close>

definition parse_storyboard_response ::
  "(string \<Rightarrow> json option) \<Rightarrow> json \<Rightarrow> py_exn + (StoryboardScene list \<times> log_record list)" where
  "parse_storyboard_response loads response_text =
     (case parse_try loads response_text of
        Inr r \<Rightarrow> Inr r
      | Inl JSONDecodeError \<Rightarrow> Inr ([], [JsonDecodeFailed])
      | Inl e \<Rightarrow> Inr ([], [ParseFailed e]))"

text \<open>
  What the HTTP request of \<open>generate_storyboard\<close> can do: raise, or answer with a status
  and a body that \<open>response.json()\<close> parses (\<open>None\<close> where it raises).
\<close>

datatype http_reply = HttpRaised | HttpReply int "json option"

text \<open>The subscripts \<open>v['key']\<close> and \<open>v[0]\<close>.\<close>

definition getitem_key :: "json \<Rightarrow> string \<Rightarrow> py_exn + json" where
  "getitem_key v key =
     (case v of
        JObj kvs \<Rightarrow> (case map_of kvs key of None \<Rightarrow> Inl KeyError | Some x \<Rightarrow> Inr x)
      | _ \<Rightarrow> Inl TypeError)"

definition getitem_0 :: "json \<Rightarrow> py_exn + json" where
  "getitem_0 v =
     (case v of
        JArr xs \<Rightarrow> (case xs of [] \<Rightarrow> Inl IndexError | x # rest \<Rightarrow> Inr x)
      | JStr s \<Rightarrow> (case s of [] \<Rightarrow> Inl IndexError | c # rest \<Rightarrow> Inr (JStr [c]))
      | JObj kvs \<Rightarrow> Inl KeyError
      | _ \<Rightarrow> Inl TypeError)"

text \<open>\<open>result['choices'][0]['message']['content']\<close>.\<close>

definition message_content :: "json \<Rightarrow> py_exn + json" where
  "message_content result =
     (case getitem_key result ''choices'' of Inl e \<Rightarrow> Inl e | Inr choices \<Rightarrow>
      case getitem_0 choices of Inl e \<Rightarrow> Inl e | Inr choice \<Rightarrow>
      case getitem_key choice ''message'' of Inl e \<Rightarrow> Inl e | Inr message \<Rightarrow>
      getitem_key message ''content'')"

text \<open>
  \<open>generate_storyboard\<close>. The language model is the parameter \<open>llm\<close>: its reply may depend
  on the content and on the requested number of scenes, which the source only writes into
  the prompt. Every exception ends in the \<open>except\<close> clause, which returns the empty list.
\<close>

definition generate_storyboard ::
  "(string \<Rightarrow> int \<Rightarrow> http_reply) \<Rightarrow> (string \<Rightarrow> json option) \<Rightarrow> string \<Rightarrow> int
     \<Rightarrow> py_exn + StoryboardScene list" where
  "generate_storyboard llm loads content num_scenes =
     (case llm content num_scenes of
        HttpRaised \<Rightarrow> Inr []
      | HttpReply status body \<Rightarrow>
          if status = 200
          then (case body of
                  None \<Rightarrow> Inr []
                | Some result \<Rightarrow>
                    (case message_content result of
                       Inl e \<Rightarrow> Inr []
                     | Inr storyboard_text \<Rightarrow>
                         (case parse_storyboard_response loads storyboard_text of
                            Inl e \<Rightarrow> Inr []
                          | Inr (scenes, logged) \<Rightarrow> Inr scenes)))
          else Inr [])"

text \<open>The text between the first \<open>{\<close> and the last \<open>}\<close>, which is handed to \<open>json.loads\<close>.\<close>

definition payload :: "string \<Rightarrow> string" where
  "payload text = slice text (find_char CHR ''{'' text) (rfind_char CHR ''}'' text + 1)"

text \<open>
  Concrete replies. \<open>loads_of\<close> stands in for \<open>json.loads\<close>: it parses the two payloads
  below as Python does and rejects every other string.
\<close>

definition four_text :: string where
  \<open>four_text = ''Here you go: {"scenes": [{}, {}, {}, {}]} enjoy''\<close>

definition four_payload :: string where
  \<open>four_payload = ''{"scenes": [{}, {}, {}, {}]}''\<close>

definition two_text :: string where
  \<open>two_text = ''{"scenes": [{"scene_id": "scene_1"}, {"duration": 5}]}''\<close>

definition loads_of :: "string \<Rightarrow> json option" where
  "loads_of s =
     (if s = four_payload
      then Some (JObj [(''scenes'', JArr [JObj [], JObj [], JObj [], JObj []])])
      else if s = two_text
      then Some (JObj [(''scenes'',
             JArr [JObj [(''scene_id'', JStr ''scene_1'')], JObj [(''duration'', JInt 5)]])])
      else None)"

definition chat_reply :: "string \<Rightarrow> json" where
  "chat_reply content =
     JObj [(''choices'', JArr [JObj [(''message'', JObj [(''content'', JStr content)])]])]"

definition llm_four :: "string \<Rightarrow> int \<Rightarrow> http_reply" where
  "llm_four content num_scenes = HttpReply 200 (Some (chat_reply four_text))"

definition llm_two :: "string \<Rightarrow> int \<Rightarrow> http_reply" where
  "llm_two content num_scenes = HttpReply 200 (Some (chat_reply two_text))"

definition default_scene :: StoryboardScene where
  "default_scene = \<lparr>
     scene_id = JStr '''', scene_title = JStr '''', scene_description = JStr '''',
     duration = JInt 8, visual_elements = JArr [], text_overlay = JStr '''',
     background_music = JStr '''', transition_effect = JStr ''''\<rparr>"

section \<open>DoubaoSeedanceAPI (video_generator.py)\<close>

text \<open>
  An exception caught by \<open>generate_video\<close> is one of the built-in ones raised by the
  modelled code itself or one raised by a collaborator, known by its message. The error
  description of a failed outcome is one of the two fixed messages of the source (the
  second with the status code and the body of the reply) or \<open>str(e)\<close> of a caught
  exception.
\<close>

datatype raised_exn = Builtin py_exn | External string

datatype error_text = EmptyUrl | ApiFailed int string | StrOf raised_exn

text \<open>
  The \<open>VideoGenerationResult\<close> dataclass. Its \<open>scene_id\<close> is called \<open>result_scene_id\<close>
  here; \<open>video_url\<close> holds what the reply has under that key, \<open>JNull\<close> being Python's
  \<open>None\<close>; the other optional fields are \<open>None\<close> or a value.
\<close>

record VideoGenerationResult =
  result_scene_id :: json
  status :: string
  video_url :: json
  video_path :: "string option"
  error_message :: "error_text option"
  generation_time :: "real option"

text \<open>
  The outside world of \<open>generate_video\<close>: \<open>os.makedirs\<close> (\<open>Some msg\<close> where it raises),
  the POST to the synthesis service (it raises, or answers with a status, the outcome of
  \<open>response.json()\<close> and the outcome of \<open>response.text()\<close>), the GET of the download
  (it raises, or answers with a status and whether the file could then be written),
  \<open>str()\<close> of a value as an f-string prints it, the \<open>strftime\<close> stamp and the seconds
  elapsed since \<open>start_time\<close>.
\<close>

datatype post_outcome = PostRaised string | PostReply int "string + json" "string + string"

datatype fetch_outcome = FetchRaised | FetchStatus int bool

record video_io =
  io_makedirs :: "string \<Rightarrow> string option"
  io_post :: "string list \<Rightarrow> json \<Rightarrow> post_outcome"
  io_fetch :: "json \<Rightarrow> fetch_outcome"
  io_render :: "json \<Rightarrow> string"
  io_stamp :: string
  io_elapsed :: real

text \<open>Python's truth value of a parsed JSON value, as \<open>if video_url:\<close> tests it.\<close>

fun truthy :: "json \<Rightarrow> bool" where
  "truthy JNull = False"
| "truthy (JBool b) = b"
| "truthy (JInt i) = (i \<noteq> 0)"
| "truthy (JFloat r) = (r \<noteq> 0)"
| "truthy (JStr s) = (s \<noteq> [])"
| "truthy (JArr xs) = (xs \<noteq> [])"
| "truthy (JObj kvs) = (kvs \<noteq> [])"

text \<open>
  \<open>', '.join(scene.visual_elements)\<close>: it iterates over its argument and raises
  \<open>TypeError\<close> on an item that is not a string.
\<close>

fun join_with :: "string \<Rightarrow> string list \<Rightarrow> string" where
  "join_with sep [] = []"
| "join_with sep [x] = x"
| "join_with sep (x # y # ys) = x @ sep @ join_with sep (y # ys)"

fun str_items :: "json list \<Rightarrow> py_exn + string list" where
  "str_items [] = Inr []"
| "str_items (x # xs) =
     (case x of
        JStr s \<Rightarrow> (case str_items xs of Inl e \<Rightarrow> Inl e | Inr ss \<Rightarrow> Inr (s # ss))
      | _ \<Rightarrow> Inl TypeError)"

definition join_elements :: "json \<Rightarrow> py_exn + string" where
  "join_elements v =
     (case iterate v of
        Inl e \<Rightarrow> Inl e
      | Inr items \<Rightarrow>
          (case str_items items of Inl e \<Rightarrow> Inl e | Inr ss \<Rightarrow> Inr (join_with '', '' ss)))"

text \<open>\<open>_build_video_prompt\<close>, the prompt given line by line.\<close>

definition build_video_prompt :: "(json \<Rightarrow> string) \<Rightarrow> StoryboardScene \<Rightarrow> py_exn + string list" where
  "build_video_prompt str scene =
     (case join_elements (visual_elements scene) of
        Inl e \<Rightarrow> Inl e
      | Inr joined \<Rightarrow> Inr
          [''Create a '' @ str (duration scene)
             @ ''-second video scene with the following specifications:'',
           '''',
           ''Title: '' @ str (scene_title scene),
           ''Description: '' @ str (scene_description scene),
           '''',
           ''Visual Elements:'',
           joined,
           '''',
           ''Text Overlay: '' @ str (text_overlay scene),
           ''Background Music: '' @ str (background_music scene),
           ''Transition Effect: '' @ str (transition_effect scene),
           '''',
           ''Style Requirements:'',
           ''- High quality, professional video'',
           ''- Suitable for social media (Xiaohongshu style)'',
           ''- Smooth transitions and movements'',
           ''- Clear and readable text overlay'',
           ''- Engaging visual composition'',
           ''- Duration: exactly '' @ str (duration scene) @ '' seconds'',
           '''',
           ''Please generate a video that matches these specifications with high visual quality and smooth motion.''])"

text \<open>\<open>os.path.join\<close> of two components on POSIX.\<close>

definition os_path_join :: "string \<Rightarrow> string \<Rightarrow> string" where
  "os_path_join a b =
     (if b \<noteq> [] \<and> hd b = CHR ''/'' then b
      else if a = [] \<or> last a = CHR ''/'' then a @ b
      else a @ ''/'' @ b)"

text \<open>
  \<open>_download_video\<close>: the path it returns when the GET answers 200 and the file is
  written, \<open>None\<close> on any other status and on any exception.
\<close>

definition download_video :: "video_io \<Rightarrow> json \<Rightarrow> json \<Rightarrow> string \<Rightarrow> string option" where
  "download_video io url sid output_dir =
     (let video_filename = io_render io sid @ ''_'' @ io_stamp io @ ''.mp4'';
          path = os_path_join output_dir video_filename
      in case io_fetch io url of
           FetchRaised \<Rightarrow> None
         | FetchStatus code written \<Rightarrow>
             if code = 200 then (if written then Some path else None) else None)"

text \<open>The outcome built on each failing path, and \<open>generate_video\<close> itself.\<close>

definition failed :: "StoryboardScene \<Rightarrow> error_text \<Rightarrow> VideoGenerationResult" where
  "failed scene msg = \<lparr>
     result_scene_id = scene_id scene, status = ''failed'', video_url = JNull,
     video_path = None, error_message = Some msg, generation_time = None\<rparr>"

definition generate_video :: "video_io \<Rightarrow> StoryboardScene \<Rightarrow> string \<Rightarrow> VideoGenerationResult" where
  "generate_video io scene output_dir =
     (case io_makedirs io output_dir of
        Some msg \<Rightarrow> failed scene (StrOf (External msg))
      | None \<Rightarrow>
          (case build_video_prompt (io_render io) scene of
             Inl e \<Rightarrow> failed scene (StrOf (Builtin e))
           | Inr prompt \<Rightarrow>
               (case io_post io prompt (duration scene) of
                  PostRaised msg \<Rightarrow> failed scene (StrOf (External msg))
                | PostReply code parsed body \<Rightarrow>
                    if code = 200
                    then (case parsed of
                            Inl msg \<Rightarrow> failed scene (StrOf (External msg))
                          | Inr result \<Rightarrow>
                              (case dict_get result ''video_url'' JNull of
                                 Inl e \<Rightarrow> failed scene (StrOf (Builtin e))
                               | Inr url \<Rightarrow>
                                   if truthy url
                                   then (let path = download_video io url (scene_id scene) output_dir;
                                             seconds = io_elapsed io
                                         in \<lparr>result_scene_id = scene_id scene,
                                             status = ''success'',
                                             video_url = url,
                                             video_path = path,
                                             error_message = None,
                                             generation_time = Some seconds\<rparr>)
                                   else failed scene EmptyUrl))
                    else (case body of
                            Inl msg \<Rightarrow> failed scene (StrOf (External msg))
                          | Inr error_text \<Rightarrow> failed scene (ApiFailed code error_text)))))"

text \<open>
  A concrete run: the synthesis service answers 200 with a video URL, and the download of
  that URL answers 404.
\<close>

definition post_with_url :: "string list \<Rightarrow> json \<Rightarrow> post_outcome" where
  "post_with_url prompt seconds =
     PostReply 200 (Inr (JObj [(''video_url'', JStr ''https://cdn.example/v.mp4'')])) (Inr [])"

definition makedirs_ok :: "string \<Rightarrow> string option" where
  "makedirs_ok dir = None"

definition fetch_404 :: "json \<Rightarrow> fetch_outcome" where
  "fetch_404 url = FetchStatus 404 False"

definition str_of :: "json \<Rightarrow> string" where
  "str_of v = (case v of JStr s \<Rightarrow> s | _ \<Rightarrow> ''8'')"

definition io_download_404 :: video_io where
  "io_download_404 = \<lparr>io_makedirs = makedirs_ok, io_post = post_with_url, io_fetch = fetch_404,
     io_render = str_of, io_stamp = ''20240101_120000'', io_elapsed = 42\<rparr>"

definition scene_1 :: StoryboardScene where
  "scene_1 = default_scene\<lparr>scene_id := JStr ''scene_1'', scene_title := JStr ''Intro'',
     visual_elements := JArr [JStr ''desk'', JStr ''laptop'']\<rparr>"

section \<open>WorkflowProcessor (main.py)\<close>

text \<open>The dataclasses \<open>XHSNote\<close> and \<open>NoteContent\<close> (its \<open>video_url\<close> renamed).\<close>

record XHSNote =
  note_id :: string
  note_display_title :: string
  note_url :: string
  auther_nick_name :: string
  auther_user_id :: string
  auther_avatar :: string
  auther_home_page_url :: string
  note_liked_count :: string
  note_cover_url_pre :: string
  note_cover_url_default :: string
  note_cover_width :: string
  note_cover_height :: string
  note_model_type :: string
  note_card_type :: string
  note_xsec_token :: string
  note_liked :: bool

record NoteContent =
  title :: string
  desc :: string
  content_video_url :: "string option"

text \<open>
  One entry of the property lists handed to Notion: its \<open>name\<close>, its \<open>type\<close>
  (\<open>title\<close>, \<open>rich_text\<close>, \<open>url\<close> or \<open>date\<close>) and its \<open>value\<close>. \<open>NoTitle\<close>,
  \<open>UnknownAuthor\<close> and \<open>NoLink\<close> stand for the three Chinese literals that replace an
  empty title, author and link. A character of a string stands for one Python character.
\<close>

datatype prop_kind = TitleProp | RichTextProp | UrlProp | DateProp

datatype prop_value = Str string | NoTitle | UnknownAuthor | NoLink

record notion_property =
  prop_name :: string
  prop_type :: prop_kind
  prop_value :: prop_value

text \<open>
  What an item's result holds under \<open>video_generation\<close>: the dict the video workflow
  returned, or the dict \<open>{"success": False, "message": str(e)}\<close> built when that step
  raised \<open>e\<close>.
\<close>

datatype video_generation = VideoResult json | VideoFailed raised_exn

text \<open>The dict appended to \<open>results\<close> for an item, its keys prefixed with \<open>res_\<close>.\<close>

record item_result =
  res_note_id :: string
  res_note_title :: string
  res_note_url :: string
  res_author :: string
  res_likes :: string
  res_original_content :: string
  res_processed_content :: string
  res_original_saved :: bool
  res_processed_saved :: bool
  res_video_generation :: video_generation

text \<open>
  The dict \<open>process_workflow\<close> returns: \<open>success\<close>, \<open>message\<close> (one of three texts,
  the second with the number of results, the third with the exception) and, on the path
  that ran the loop only, \<open>results\<close>. It has no other key.
\<close>

datatype report_message = NoNotesFound | ProcessedNotes nat | WorkflowFailed string

record report =
  report_success :: bool
  report_message :: report_message
  report_results :: "item_result list option"

text \<open>The log lines that tell what became of the run and of each item.\<close>

datatype log_event =
    SearchEmpty
  | WorkflowRaised string
  | CannotRead string
  | RewriteFailed string
  | ItemRaised string
  | ItemDone string

text \<open>
  The collaborators of \<open>WorkflowProcessor\<close>. Each may raise (\<open>Inl\<close> with the message)
  or return; the per-item ones are given by the position \<open>i\<close> of the item in the list and
  the arguments of the call, so that they may answer differently from item to item.
  \<open>wf_today\<close> is the formatted current date.
\<close>

record workflow_io =
  wf_search :: "string \<Rightarrow> int \<Rightarrow> int \<Rightarrow> int \<Rightarrow> string + XHSNote list"
  wf_read :: "nat \<Rightarrow> string \<Rightarrow> string + NoteContent option"
  wf_rewrite :: "nat \<Rightarrow> string \<Rightarrow> string + string option"
  wf_video :: "nat \<Rightarrow> string \<Rightarrow> int \<Rightarrow> string + json"
  wf_notion :: "nat \<Rightarrow> string \<Rightarrow> notion_property list \<Rightarrow> string + bool"
  wf_today :: string

text \<open>\<open>s or literal\<close> on a string, and the two property lists.\<close>

definition or_else :: "string \<Rightarrow> prop_value \<Rightarrow> prop_value" where
  "or_else s dflt = (if s = [] then dflt else Str s)"

definition original_properties :: "XHSNote \<Rightarrow> string \<Rightarrow> notion_property list" where
  "original_properties note current_date =
     [\<lparr>prop_name = ''note_display_title'', prop_type = TitleProp,
       prop_value = or_else (note_display_title note) NoTitle\<rparr>,
      \<lparr>prop_name = ''auther_nick_name'', prop_type = RichTextProp,
       prop_value = or_else (auther_nick_name note) UnknownAuthor\<rparr>,
      \<lparr>prop_name = ''note_liked_count'', prop_type = RichTextProp,
       prop_value = or_else (note_liked_count note) (Str ''0'')\<rparr>,
      \<lparr>prop_name = ''note_url'', prop_type = UrlProp,
       prop_value = or_else (note_url note) NoLink\<rparr>,
      \<lparr>prop_name = ''created_date'', prop_type = DateProp,
       prop_value = Str current_date\<rparr>]"

definition processed_properties :: "string \<Rightarrow> string \<Rightarrow> notion_property list" where
  "processed_properties processed_content current_date =
     [\<lparr>prop_name = ''Content'', prop_type = TitleProp,
       prop_value = Str (if 2000 < length processed_content
                         then take 1997 processed_content @ ''...''
                         else processed_content)\<rparr>,
      \<lparr>prop_name = ''Date'', prop_type = DateProp, prop_value = Str current_date\<rparr>]"

text \<open>
  Step 2.2.1 with its own \<open>try\<close>: the subscripts \<open>video_result['success']\<close>,
  \<open>['successful_videos']\<close> and \<open>['message']\<close> raise on a result without them, and
  every exception of the step is turned into a failed \<open>video_generation\<close>.
\<close>

definition video_step :: "workflow_io \<Rightarrow> Config \<Rightarrow> nat \<Rightarrow> string \<Rightarrow> video_generation" where
  "video_step io config i processed_content =
     (case wf_video io i processed_content (default_scene_count config) of
        Inl msg \<Rightarrow> VideoFailed (External msg)
      | Inr video_result \<Rightarrow>
          (case getitem_key video_result ''success'' of
             Inl e \<Rightarrow> VideoFailed (Builtin e)
           | Inr ok \<Rightarrow>
               (case getitem_key video_result
                       (if truthy ok then ''successful_videos'' else ''message'') of
                  Inl e \<Rightarrow> VideoFailed (Builtin e)
                | Inr logged \<Rightarrow> VideoResult video_result)))"

text \<open>
  The body of the \<open>for note in notes\<close> loop: the result it appends, if any, and what it
  logs. The two \<open>continue\<close> statements and the \<open>except Exception\<close> clause of the loop
  body all leave \<open>results\<close> as it is.
\<close>

definition process_note ::
  "workflow_io \<Rightarrow> Config \<Rightarrow> nat \<Rightarrow> XHSNote \<Rightarrow> item_result option \<times> log_event list" where
  "process_note io config i note =
     (case wf_read io i (note_url note) of
        Inl msg \<Rightarrow> (None, [ItemRaised msg])
      | Inr None \<Rightarrow> (None, [CannotRead (note_url note)])
      | Inr (Some note_content) \<Rightarrow>
          (case wf_rewrite io i (desc note_content) of
             Inl msg \<Rightarrow> (None, [ItemRaised msg])
           | Inr None \<Rightarrow> (None, [RewriteFailed (note_url note)])
           | Inr (Some processed_content) \<Rightarrow>
               if processed_content = [] then (None, [RewriteFailed (note_url note)])
               else
                 (let video_result = video_step io config i processed_content;
                      current_date = wf_today io
                  in case wf_notion io i (original_database_id config)
                            (original_properties note current_date) of
                       Inl msg \<Rightarrow> (None, [ItemRaised msg])
                     | Inr original_success \<Rightarrow>
                         (case wf_notion io i (processed_database_id config)
                                 (processed_properties processed_content current_date) of
                            Inl msg \<Rightarrow> (None, [ItemRaised msg])
                          | Inr processed_success \<Rightarrow>
                              (Some \<lparr>res_note_id = note_id note,
                                     res_note_title = note_display_title note,
                                     res_note_url = note_url note,
                                     res_author = auther_nick_name note,
                                     res_likes = note_liked_count note,
                                     res_original_content = desc note_content,
                                     res_processed_content = processed_content,
                                     res_original_saved = original_success,
                                     res_processed_saved = processed_success,
                                     res_video_generation = video_result\<rparr>,
                               [ItemDone (note_display_title note)])))))"

text \<open>The loop, with the position of the current item and \<open>results\<close> as accumulator.\<close>

fun process_notes ::
  "workflow_io \<Rightarrow> Config \<Rightarrow> nat \<Rightarrow> XHSNote list \<Rightarrow> item_result list \<Rightarrow> log_event list
     \<Rightarrow> item_result list \<times> log_event list" where
  "process_notes io config i [] results logged = (results, logged)"
| "process_notes io config i (note # notes) results logged =
     (case process_note io config i note of
        (None, l) \<Rightarrow> process_notes io config (Suc i) notes results (logged @ l)
      | (Some result, l) \<Rightarrow>
          process_notes io config (Suc i) notes (results @ [result]) (logged @ l))"

text \<open>
  \<open>process_workflow\<close>. The configuration is the \<open>Config\<close> that \<open>get_config_dict\<close> turns
  into the dict, so every key the source reads is present.
\<close>

definition process_workflow ::
  "workflow_io \<Rightarrow> Config \<Rightarrow> string \<Rightarrow> report \<times> log_event list" where
  "process_workflow io config keyword =
     (case wf_search io keyword (note_type config) (sort_cfg config) (total_number config) of
        Inl msg \<Rightarrow>
          (\<lparr>report_success = False, report_message = WorkflowFailed msg,
            report_results = None\<rparr>, [WorkflowRaised msg])
      | Inr notes \<Rightarrow>
          if notes = []
          then (\<lparr>report_success = False, report_message = NoNotesFound,
                 report_results = None\<rparr>, [SearchEmpty])
          else (case process_notes io config 0 notes [] [] of
                  (results, logged) \<Rightarrow>
                    (\<lparr>report_success = True,
                      report_message = ProcessedNotes (length results),
                      report_results = Some results\<rparr>, logged)))"

text \<open>The results and the log lines of the items of a list, each processed on its own.\<close>

definition item_results ::
  "workflow_io \<Rightarrow> Config \<Rightarrow> nat \<Rightarrow> XHSNote list \<Rightarrow> item_result list" where
  "item_results io config i notes =
     List.map_filter (\<lambda>(j, note). fst (process_note io config j note)) (List.enumerate i notes)"

definition item_logs ::
  "workflow_io \<Rightarrow> Config \<Rightarrow> nat \<Rightarrow> XHSNote list \<Rightarrow> log_event list" where
  "item_logs io config i notes =
     concat (map (\<lambda>(j, note). snd (process_note io config j note)) (List.enumerate i notes))"

text \<open>Concrete notes and collaborators.\<close>

definition mk_note :: "string \<Rightarrow> string \<Rightarrow> XHSNote" where
  "mk_note ident shown = \<lparr>
     note_id = ident, note_display_title = shown,
     note_url = ''https://www.xiaohongshu.com/explore/'' @ ident,
     auther_nick_name = ''author'', auther_user_id = ''user_1'',
     auther_avatar = ''https://example.com/avatar1.jpg'',
     auther_home_page_url = ''https://www.xiaohongshu.com/user/profile/user_1'',
     note_liked_count = ''100'',
     note_cover_url_pre = ''https://example.com/cover1.jpg'',
     note_cover_url_default = ''https://example.com/cover1.jpg'',
     note_cover_width = ''400'', note_cover_height = ''300'',
     note_model_type = ''normal'', note_card_type = ''normal'',
     note_xsec_token = ''token'', note_liked = False\<rparr>"

definition three_notes :: "XHSNote list" where
  "three_notes = [mk_note ''n1'' ''first'', mk_note ''n2'' ''second'', mk_note ''n3'' ''third'']"

definition search_three :: "string \<Rightarrow> int \<Rightarrow> int \<Rightarrow> int \<Rightarrow> string + XHSNote list" where
  "search_three keyword kind order cap = Inr three_notes"

definition search_one :: "string \<Rightarrow> int \<Rightarrow> int \<Rightarrow> int \<Rightarrow> string + XHSNote list" where
  "search_one keyword kind order cap = Inr [mk_note ''n1'' ''first'']"

definition body_of :: "string \<Rightarrow> NoteContent" where
  "body_of url = \<lparr>title = ''a title'', desc = ''about '' @ url, content_video_url = None\<rparr>"

definition read_all :: "nat \<Rightarrow> string \<Rightarrow> string + NoteContent option" where
  "read_all i url = Inr (Some (body_of url))"


definition read_none :: "nat \<Rightarrow> string \<Rightarrow> string + NoteContent option" where
  "read_none i url = Inr None"

definition rewrite_ok :: "nat \<Rightarrow> string \<Rightarrow> string + string option" where
  "rewrite_ok i content = Inr (Some ''rewritten'')"

definition no_scenes :: json where
  "no_scenes = JObj [(''success'', JBool False), (''message'', JStr ''no scenes'')]"

definition video_none :: "nat \<Rightarrow> string \<Rightarrow> int \<Rightarrow> string + json" where
  "video_none i content count = Inr no_scenes"

definition notion_ok :: "nat \<Rightarrow> string \<Rightarrow> notion_property list \<Rightarrow> string + bool" where
  "notion_ok i database properties = Inr True"


definition io_all_readable :: workflow_io where
  "io_all_readable = \<lparr>wf_search = search_three, wf_read = read_all,
     wf_rewrite = rewrite_ok, wf_video = video_none, wf_notion = notion_ok,
     wf_today = ''2024-01-01''\<rparr>"

definition io_unreadable :: workflow_io where
  "io_unreadable = \<lparr>wf_search = search_one, wf_read = read_none,
     wf_rewrite = rewrite_ok, wf_video = video_none, wf_notion = notion_ok,
     wf_today = ''2024-01-01''\<rparr>"

definition result_of :: "string \<Rightarrow> string \<Rightarrow> item_result" where
  "result_of ident shown = \<lparr>
     res_note_id = ident, res_note_title = shown,
     res_note_url = ''https://www.xiaohongshu.com/explore/'' @ ident,
     res_author = ''author'', res_likes = ''100'',
     res_original_content = ''about https://www.xiaohongshu.com/explore/'' @ ident,
     res_processed_content = ''rewritten'',
     res_original_saved = True, res_processed_saved = True,
     res_video_generation = VideoResult no_scenes\<rparr>"

section \<open>Properties of RetryHandler\<close>























section \<open>Properties of RateLimiter\<close>













section \<open>Properties of PerformanceMonitor\<close>

lemma update_fresh: "k \<notin> fst ` set al \<Longrightarrow> AList.update k v al = al @ [(k, v)]"
  by (induction al) auto

lemma sum_deltas: "ts \<noteq> [] \<Longrightarrow> sum_list (deltas prev ts) = last ts - prev"
  by (induction ts arbitrary: prev) auto

lemma length_deltas: "length (deltas prev ts) = length ts"
  by (induction ts arbitrary: prev) auto

lemma summary_loop_fresh:
  "\<lbrakk>distinct (map fst items); \<forall>n \<in> set (map fst items). dur_key n \<notin> fst ` set summary\<rbrakk>
   \<Longrightarrow> summary_loop items prev summary
       = summary @ zip (map dur_key (map fst items)) (deltas prev (map snd items))"
proof (induction items arbitrary: prev summary)
  case Nil
  then show ?case by simp
next
  case (Cons it items)
  obtain name t where it: "it = (name, t)" by (cases it)
  from Cons.prems it have fresh: "dur_key name \<notin> fst ` set summary" by simp
  then have upd: "AList.update (name @ ''_duration'') (t - prev) summary
                  = summary @ [(dur_key name, t - prev)]"
    by (simp add: update_fresh dur_key_def)
  from Cons.prems it have d: "distinct (map fst items)" and nin: "name \<notin> set (map fst items)"
    by simp_all
  have "\<forall>n \<in> set (map fst items). dur_key n \<notin> fst ` set (summary @ [(dur_key name, t - prev)])"
    using Cons.prems it nin by (auto simp: dur_key_def)
  from Cons.IH [OF d this] upd it show ?case by simp
qed

lemma checkpoint_calls_fresh:
  "\<lbrakk>start_time mon = Some t0; distinct (map fst cps);
    \<forall>n \<in> set (map fst cps). n \<notin> fst ` set (checkpoints mon)\<rbrakk>
   \<Longrightarrow> checkpoints (checkpoint_calls mon cps)
         = checkpoints mon @ map (\<lambda>(n, t). (n, t - t0)) cps
       \<and> start_time (checkpoint_calls mon cps) = Some t0"
proof (induction cps arbitrary: mon)
  case Nil
  then show ?case by simp
next
  case (Cons c cps)
  obtain name t where c: "c = (name, t)" by (cases c)
  let ?mon = "checkpoint mon name t t"
  from Cons.prems c have fresh: "name \<notin> fst ` set (checkpoints mon)" by simp
  with Cons.prems have cp: "checkpoints ?mon = checkpoints mon @ [(name, t - t0)]"
    and st: "start_time ?mon = Some t0"
    by (simp_all add: checkpoint_def update_fresh)
  from Cons.prems c have d: "distinct (map fst cps)" and nin: "name \<notin> set (map fst cps)"
    by simp_all
  have "\<forall>n \<in> set (map fst cps). n \<notin> fst ` set (checkpoints ?mon)"
    using Cons.prems c nin by (auto simp: cp)
  from Cons.IH [OF st d this] cp c show ?case by simp
qed

lemma fold_max_sorted:
  "sorted (x # xs) \<Longrightarrow> fold (\<lambda>y m. if m < y then y else m) xs x = last (x # xs)"
proof (induction xs arbitrary: x)
  case Nil
  then show ?case by simp
next
  case (Cons y ys)
  then have "x \<le> y" "sorted (y # ys)" by simp_all
  with Cons.IH [of y] show ?case by (cases "x < y") auto
qed

lemma py_max_sorted: "sorted xs \<Longrightarrow> xs \<noteq> [] \<Longrightarrow> py_max xs = last xs"
proof (cases xs)
  case Nil
  then show "xs \<noteq> [] \<Longrightarrow> ?thesis" by simp
next
  case (Cons x ys)
  assume "sorted xs"
  with Cons have "sorted (x # ys)" by simp
  then have "fold (\<lambda>y m. if m < y then y else m) ys x = last (x # ys)"
    by (rule fold_max_sorted)
  with Cons show ?thesis by simp
qed

lemma py_max_Max: "xs \<noteq> [] \<Longrightarrow> py_max xs = Max (set xs)"
proof (cases xs)
  case Nil
  then show "xs \<noteq> [] \<Longrightarrow> ?thesis" by simp
next
  case (Cons x ys)
  have "(\<lambda>(y::real) m. if m < y then y else m) = max"
    by (auto simp: fun_eq_iff max_def)
  then have "fold (\<lambda>y m. if m < y then y else m) ys x = fold max ys x"
    by (simp only:)
  also have "\<dots> = Max (set (x # ys))"
    by (rule Max.set_eq_fold [symmetric])
  finally have "fold (\<lambda>y m. if m < y then y else m) ys x = Max (set (x # ys))" .
  with Cons show ?thesis by simp
qed

lemma dur_key_total: "dur_key n = ''total_duration'' \<longleftrightarrow> n = ''total''"
  by (simp add: dur_key_def)

lemma checkpoints_after_start:
  assumes "distinct (map fst cps)"
  shows "checkpoints (checkpoint_calls (start mon t0) cps) = map (\<lambda>(n, t). (n, t - t0)) cps"
proof -
  have st: "start_time (start mon t0) = Some t0" by (simp add: start_def)
  have "\<forall>n \<in> set (map fst cps). n \<notin> fst ` set (checkpoints (start mon t0))"
    by (simp add: start_def)
  from checkpoint_calls_fresh [OF st assms this] show ?thesis
    by (simp add: start_def)
qed

text \<open>
  C10 (as amended). After \<open>start()\<close> and \<open>n \<ge> 1\<close> calls of \<open>checkpoint\<close> with pairwise
  different names, none of them \<open>total\<close>: \<open>get_summary\<close> returns, in the order of the
  calls, one \<open>name_duration\<close> entry per checkpoint, holding the difference to the elapsed
  time of the checkpoint before it (the first one to 0), followed by one
  \<open>total_duration\<close> entry holding the largest elapsed time; the differences add up to the
  elapsed time of the last checkpoint. With no checkpoint recorded \<open>get_summary\<close> returns
  the empty dictionary.
\<close>

theorem get_summary_telescopes:
  assumes "distinct (map fst cps)" and "''total'' \<notin> set (map fst cps)" and "cps \<noteq> []"
  shows "get_summary (checkpoint_calls (start mon t0) cps)
           = zip (map (\<lambda>n. n @ ''_duration'') (map fst cps))
                 (deltas 0 (map (\<lambda>t. t - t0) (map snd cps)))
             @ [(''total_duration'', Max (set (map (\<lambda>t. t - t0) (map snd cps))))]
       \<and> length (deltas 0 (map (\<lambda>t. t - t0) (map snd cps))) = length cps
       \<and> sum_list (deltas 0 (map (\<lambda>t. t - t0) (map snd cps))) = snd (last cps) - t0
       \<and> get_summary (start mon t0) = []"
proof -
  let ?items = "map (\<lambda>(n, t). (n, t - t0)) cps"
  let ?elapsed = "map (\<lambda>t. t - t0) (map snd cps)"
  let ?summary = "zip (map dur_key (map fst cps)) (deltas 0 ?elapsed)"
  have cp: "checkpoints (checkpoint_calls (start mon t0) cps) = ?items"
    using assms(1) by (rule checkpoints_after_start)
  have names: "map fst ?items = map fst cps" by (induction cps) auto
  have vals: "map snd ?items = ?elapsed" by (induction cps) auto
  from assms(3) have ne: "?items \<noteq> []" by simp
  have d: "distinct (map fst ?items)" using assms(1) by (simp only: names)
  have f: "\<forall>n \<in> set (map fst ?items). dur_key n \<notin> fst ` set []" by simp
  have "summary_loop ?items 0 []
        = [] @ zip (map dur_key (map fst ?items)) (deltas 0 (map snd ?items))"
    using d f by (rule summary_loop_fresh)
  then have loop: "summary_loop ?items 0 [] = ?summary" by (simp only: names vals append_Nil)
  have sub: "fst ` set ?summary \<subseteq> dur_key ` set (map fst cps)"
    by (force dest!: set_zip_leftD)
  have "''total_duration'' \<notin> dur_key ` set (map fst cps)"
  proof
    assume "''total_duration'' \<in> dur_key ` set (map fst cps)"
    then obtain n where "n \<in> set (map fst cps)" and "dur_key n = ''total_duration''"
      by (auto simp del: set_map)
    with assms(2) show False by (simp only: dur_key_total)
  qed
  with sub have "''total_duration'' \<notin> fst ` set ?summary" by blast
  then have upd: "AList.update ''total_duration'' m ?summary
                  = ?summary @ [(''total_duration'', m)]" for m
    by (rule update_fresh)
  from assms(3) have "?elapsed \<noteq> []" by simp
  then have mx: "py_max ?elapsed = Max (set ?elapsed)" by (rule py_max_Max)
  have keys: "map dur_key (map fst cps) = map (\<lambda>n. n @ ''_duration'') (map fst cps)"
    by (simp add: dur_key_def)
  have "get_summary (checkpoint_calls (start mon t0) cps)
        = ?summary @ [(''total_duration'', Max (set ?elapsed))]"
    unfolding get_summary_def cp Let_def using ne
    by (simp only: if_False if_True loop upd vals mx not_False_eq_True)
  then have first: "get_summary (checkpoint_calls (start mon t0) cps)
        = zip (map (\<lambda>n. n @ ''_duration'') (map fst cps)) (deltas 0 ?elapsed)
          @ [(''total_duration'', Max (set ?elapsed))]"
    by (simp only: keys)
  from assms(3) have "last ?elapsed = snd (last cps) - t0"
    by (simp add: last_map)
  with \<open>?elapsed \<noteq> []\<close> have total: "sum_list (deltas 0 ?elapsed) = snd (last cps) - t0"
    by (simp add: sum_deltas)
  have len: "length (deltas 0 ?elapsed) = length cps" by (simp add: length_deltas)
  have empty: "get_summary (start mon t0) = []" by (simp add: get_summary_def start_def)
  from first len total empty show ?thesis by blast
qed

theorem get_summary_telescopes_witness:
  "get_summary (checkpoint_calls (start new_monitor 1) search_then_read)
     = [(''search_duration'', 1), (''read_duration'', 3), (''total_duration'', 4)]
   \<and> sum_list [1, 3] = (4::real)
   \<and> get_summary (start new_monitor 1) = []"
proof -
  have a: "distinct (map fst search_then_read)" by (simp add: search_then_read_def)
  have b: "''total'' \<notin> set (map fst search_then_read)" by (simp add: search_then_read_def)
  have c: "search_then_read \<noteq> []" by (simp add: search_then_read_def)
  from get_summary_telescopes [OF a b c, of new_monitor 1] show ?thesis
    by (simp add: search_then_read_def)
qed

text \<open>
  C10, as stated, fails when a checkpoint is named \<open>total\<close>: its entry
  \<open>total_duration\<close> is overwritten by the summary's own \<open>total_duration\<close>, and the
  per-checkpoint entries (3 and 2 here) no longer add up to the elapsed time 3 of the last
  checkpoint.
\<close>

theorem get_summary_total_name_counterexample:
  "get_summary (checkpoint_calls (start new_monitor 0) total_then_b)
     = [(''total_duration'', 3), (''b_duration'', 2)]"
  by (simp add: get_summary_def total_then_b_def start_def new_monitor_def checkpoint_def)

text \<open>
  A name recorded twice keeps its first position and takes the last value, so the entries
  (3 and -1 here) add up to 2 and not to the elapsed time 3 of the last recording.
\<close>

lemma get_summary_repeated_name:
  "get_summary (checkpoint_calls (start new_monitor 0) a_b_a_again)
     = [(''a_duration'', 3), (''b_duration'', - 1), (''total_duration'', 3)]"
  by (simp add: get_summary_def a_b_a_again_def start_def new_monitor_def checkpoint_def)

section \<open>Properties of the configuration\<close>

lemma validate_config_ok:
  "validate_config upper c = Inr u \<longleftrightarrow>
     note_type c \<in> {0, 1, 2} \<and> sort_cfg c \<in> {0, 1, 2} \<and> 0 < total_number c
     \<and> upper (log_level c) \<in> set valid_log_levels \<and> 0 < request_timeout c
     \<and> 0 \<le> max_retries_cfg c"
  by (auto simp: validate_config_def)

lemma get_config_Inr:
  assumes "get_config py_int upper env = Inr c"
  shows "filter (not_set env) required_configs = []
       \<and> py_int (getenv env ''DEFAULT_SCENE_COUNT'' ''3'') = Some (default_scene_count c)
       \<and> py_int (getenv env ''NOTE_TYPE'' ''2'') = Some (note_type c)
       \<and> py_int (getenv env ''SORT'' ''2'') = Some (sort_cfg c)
       \<and> py_int (getenv env ''TOTAL_NUMBER'' ''2'') = Some (total_number c)
       \<and> py_int (getenv env ''REQUEST_TIMEOUT'' ''30'') = Some (request_timeout c)
       \<and> py_int (getenv env ''MAX_RETRIES'' ''3'') = Some (max_retries_cfg c)
       \<and> validate_config upper c = Inr ()
       \<and> log_level c = getenv env ''LOG_LEVEL'' ''INFO''"
  using assms
  by (auto simp: get_config_def to_int_def Let_def split: if_splits sum.splits option.splits)

lemma get_config_raises:
  assumes "(\<exists>k \<in> set required_configs. not_set env k)
         \<or> py_int (getenv env ''DEFAULT_SCENE_COUNT'' ''3'') = None
         \<or> py_int (getenv env ''NOTE_TYPE'' ''2'') = None
         \<or> py_int (getenv env ''SORT'' ''2'') = None
         \<or> py_int (getenv env ''TOTAL_NUMBER'' ''2'') = None
         \<or> py_int (getenv env ''REQUEST_TIMEOUT'' ''30'') = None
         \<or> py_int (getenv env ''MAX_RETRIES'' ''3'') = None
         \<or> (\<exists>nt. py_int (getenv env ''NOTE_TYPE'' ''2'') = Some nt \<and> nt \<notin> {0, 1, 2})
         \<or> (\<exists>so. py_int (getenv env ''SORT'' ''2'') = Some so \<and> so \<notin> {0, 1, 2})
         \<or> (\<exists>tn. py_int (getenv env ''TOTAL_NUMBER'' ''2'') = Some tn \<and> tn \<le> 0)
         \<or> upper (getenv env ''LOG_LEVEL'' ''INFO'') \<notin> set valid_log_levels
         \<or> (\<exists>rt. py_int (getenv env ''REQUEST_TIMEOUT'' ''30'') = Some rt \<and> rt \<le> 0)
         \<or> (\<exists>mr. py_int (getenv env ''MAX_RETRIES'' ''3'') = Some mr \<and> mr < 0)"
  shows "\<exists>e. get_config py_int upper env = Inl e"
proof (cases "get_config py_int upper env")
  case (Inl e)
  then show ?thesis by blast
next
  case (Inr c)
  note facts = get_config_Inr [OF Inr]
  from facts have none: "\<not> (\<exists>k \<in> set required_configs. not_set env k)"
    by (simp add: filter_empty_conv)
  from facts have ok: "validate_config upper c = Inr ()" by simp
  note rng = ok [unfolded validate_config_ok]
  from assms none facts rng show ?thesis by auto
qed

lemma get_config_returns:
  assumes "\<forall>k \<in> set required_configs. \<not> not_set env k"
    and "py_int (getenv env ''DEFAULT_SCENE_COUNT'' ''3'') = Some dsc"
    and "py_int (getenv env ''NOTE_TYPE'' ''2'') = Some nt"
    and "py_int (getenv env ''SORT'' ''2'') = Some so"
    and "py_int (getenv env ''TOTAL_NUMBER'' ''2'') = Some tn"
    and "py_int (getenv env ''REQUEST_TIMEOUT'' ''30'') = Some rt"
    and "py_int (getenv env ''MAX_RETRIES'' ''3'') = Some mr"
    and "nt \<in> {0, 1, 2}" and "so \<in> {0, 1, 2}" and "0 < tn"
    and "upper (getenv env ''LOG_LEVEL'' ''INFO'') \<in> set valid_log_levels"
    and "0 < rt" and "0 \<le> mr"
  shows "get_config py_int upper env = Inr \<lparr>
            xhs_cookie = the (env ''XHS_COOKIE''),
            llm_api_key = the (env ''LLM_API_KEY''),
            llm_base_url = getenv env ''LLM_BASE_URL'' ''https://api.deepseek.com'',
            notion_token = the (env ''NOTION_TOKEN''),
            original_database_id = the (env ''ORIGINAL_DATABASE_ID''),
            processed_database_id = the (env ''PROCESSED_DATABASE_ID''),
            doubao_api_key = the (env ''DOUBAO_API_KEY''),
            doubao_base_url =
              getenv env ''DOUBAO_BASE_URL'' ''https://ark.cn-beijing.volces.com/api/v3'',
            video_output_dir = getenv env ''VIDEO_OUTPUT_DIR'' ''videos'',
            default_scene_count = dsc,
            video_resolution = getenv env ''VIDEO_RESOLUTION'' ''720p'',
            video_style = getenv env ''VIDEO_STYLE'' ''realistic'',
            note_type = nt,
            sort_cfg = so,
            total_number = tn,
            log_level = getenv env ''LOG_LEVEL'' ''INFO'',
            request_timeout = rt,
            max_retries_cfg = mr\<rparr>"
proof -
  from assms(1) have "filter (not_set env) required_configs = []"
    by (simp add: filter_empty_conv)
  with assms(2-) show ?thesis
    by (simp add: get_config_def to_int_def Let_def validate_config_def)
qed

text \<open>
  C9 (as amended). \<open>get_config\<close> raises, and \<open>main\<close> returns without running the
  workflow, whenever a required setting is missing or empty, an integer setting is not an
  integer literal, the note type or the sort is outside \<open>{0, 1, 2}\<close>, the upper-cased log
  level is outside \<open>DEBUG, INFO, WARNING, ERROR\<close>, the result cap or the request timeout
  is not positive, or the number of retries is negative. When none of these holds and the
  default scene count is positive, it returns the Config that holds the values of the
  environment, with the documented default for each optional setting that is absent.
\<close>

theorem get_config_fail_fast:
  "((\<exists>k \<in> set required_configs. not_set env k)
      \<or> py_int (getenv env ''DEFAULT_SCENE_COUNT'' ''3'') = None
      \<or> py_int (getenv env ''NOTE_TYPE'' ''2'') = None
      \<or> py_int (getenv env ''SORT'' ''2'') = None
      \<or> py_int (getenv env ''TOTAL_NUMBER'' ''2'') = None
      \<or> py_int (getenv env ''REQUEST_TIMEOUT'' ''30'') = None
      \<or> py_int (getenv env ''MAX_RETRIES'' ''3'') = None
      \<or> (\<exists>nt. py_int (getenv env ''NOTE_TYPE'' ''2'') = Some nt \<and> nt \<notin> {0, 1, 2})
      \<or> (\<exists>so. py_int (getenv env ''SORT'' ''2'') = Some so \<and> so \<notin> {0, 1, 2})
      \<or> (\<exists>tn. py_int (getenv env ''TOTAL_NUMBER'' ''2'') = Some tn \<and> tn \<le> 0)
      \<or> upper (getenv env ''LOG_LEVEL'' ''INFO'') \<notin> set valid_log_levels
      \<or> (\<exists>rt. py_int (getenv env ''REQUEST_TIMEOUT'' ''30'') = Some rt \<and> rt \<le> 0)
      \<or> (\<exists>mr. py_int (getenv env ''MAX_RETRIES'' ''3'') = Some mr \<and> mr < 0)
    \<longrightarrow> (\<exists>e. get_config py_int upper env = Inl e
             \<and> main py_int upper env keyword run_workflow = ConfigErrorPrinted e))
   \<and> ((\<forall>k \<in> set required_configs. \<not> not_set env k)
      \<and> py_int (getenv env ''DEFAULT_SCENE_COUNT'' ''3'') = Some dsc
      \<and> py_int (getenv env ''NOTE_TYPE'' ''2'') = Some nt
      \<and> py_int (getenv env ''SORT'' ''2'') = Some so
      \<and> py_int (getenv env ''TOTAL_NUMBER'' ''2'') = Some tn
      \<and> py_int (getenv env ''REQUEST_TIMEOUT'' ''30'') = Some rt
      \<and> py_int (getenv env ''MAX_RETRIES'' ''3'') = Some mr
      \<and> 0 < dsc \<and> nt \<in> {0, 1, 2} \<and> so \<in> {0, 1, 2} \<and> 0 < tn
      \<and> upper (getenv env ''LOG_LEVEL'' ''INFO'') \<in> set valid_log_levels
      \<and> 0 < rt \<and> 0 \<le> mr
    \<longrightarrow> get_config py_int upper env = Inr \<lparr>
            xhs_cookie = the (env ''XHS_COOKIE''),
            llm_api_key = the (env ''LLM_API_KEY''),
            llm_base_url = getenv env ''LLM_BASE_URL'' ''https://api.deepseek.com'',
            notion_token = the (env ''NOTION_TOKEN''),
            original_database_id = the (env ''ORIGINAL_DATABASE_ID''),
            processed_database_id = the (env ''PROCESSED_DATABASE_ID''),
            doubao_api_key = the (env ''DOUBAO_API_KEY''),
            doubao_base_url =
              getenv env ''DOUBAO_BASE_URL'' ''https://ark.cn-beijing.volces.com/api/v3'',
            video_output_dir = getenv env ''VIDEO_OUTPUT_DIR'' ''videos'',
            default_scene_count = dsc,
            video_resolution = getenv env ''VIDEO_RESOLUTION'' ''720p'',
            video_style = getenv env ''VIDEO_STYLE'' ''realistic'',
            note_type = nt,
            sort_cfg = so,
            total_number = tn,
            log_level = getenv env ''LOG_LEVEL'' ''INFO'',
            request_timeout = rt,
            max_retries_cfg = mr\<rparr>)"
proof (intro conjI impI)
  assume bad: "(\<exists>k \<in> set required_configs. not_set env k)
      \<or> py_int (getenv env ''DEFAULT_SCENE_COUNT'' ''3'') = None
      \<or> py_int (getenv env ''NOTE_TYPE'' ''2'') = None
      \<or> py_int (getenv env ''SORT'' ''2'') = None
      \<or> py_int (getenv env ''TOTAL_NUMBER'' ''2'') = None
      \<or> py_int (getenv env ''REQUEST_TIMEOUT'' ''30'') = None
      \<or> py_int (getenv env ''MAX_RETRIES'' ''3'') = None
      \<or> (\<exists>nt. py_int (getenv env ''NOTE_TYPE'' ''2'') = Some nt \<and> nt \<notin> {0, 1, 2})
      \<or> (\<exists>so. py_int (getenv env ''SORT'' ''2'') = Some so \<and> so \<notin> {0, 1, 2})
      \<or> (\<exists>tn. py_int (getenv env ''TOTAL_NUMBER'' ''2'') = Some tn \<and> tn \<le> 0)
      \<or> upper (getenv env ''LOG_LEVEL'' ''INFO'') \<notin> set valid_log_levels
      \<or> (\<exists>rt. py_int (getenv env ''REQUEST_TIMEOUT'' ''30'') = Some rt \<and> rt \<le> 0)
      \<or> (\<exists>mr. py_int (getenv env ''MAX_RETRIES'' ''3'') = Some mr \<and> mr < 0)"
  from get_config_raises [where env = env and py_int = py_int and upper = upper, OF bad]
  obtain e where e: "get_config py_int upper env = Inl e"
    by blast
  then have "main py_int upper env keyword run_workflow = ConfigErrorPrinted e"
    by (simp add: main_def)
  with e show "\<exists>e. get_config py_int upper env = Inl e
                 \<and> main py_int upper env keyword run_workflow = ConfigErrorPrinted e"
    by blast
next
  assume ok: "(\<forall>k \<in> set required_configs. \<not> not_set env k)
      \<and> py_int (getenv env ''DEFAULT_SCENE_COUNT'' ''3'') = Some dsc
      \<and> py_int (getenv env ''NOTE_TYPE'' ''2'') = Some nt
      \<and> py_int (getenv env ''SORT'' ''2'') = Some so
      \<and> py_int (getenv env ''TOTAL_NUMBER'' ''2'') = Some tn
      \<and> py_int (getenv env ''REQUEST_TIMEOUT'' ''30'') = Some rt
      \<and> py_int (getenv env ''MAX_RETRIES'' ''3'') = Some mr
      \<and> 0 < dsc \<and> nt \<in> {0, 1, 2} \<and> so \<in> {0, 1, 2} \<and> 0 < tn
      \<and> upper (getenv env ''LOG_LEVEL'' ''INFO'') \<in> set valid_log_levels
      \<and> 0 < rt \<and> 0 \<le> mr"
  then show "get_config py_int upper env = Inr \<lparr>
            xhs_cookie = the (env ''XHS_COOKIE''),
            llm_api_key = the (env ''LLM_API_KEY''),
            llm_base_url = getenv env ''LLM_BASE_URL'' ''https://api.deepseek.com'',
            notion_token = the (env ''NOTION_TOKEN''),
            original_database_id = the (env ''ORIGINAL_DATABASE_ID''),
            processed_database_id = the (env ''PROCESSED_DATABASE_ID''),
            doubao_api_key = the (env ''DOUBAO_API_KEY''),
            doubao_base_url =
              getenv env ''DOUBAO_BASE_URL'' ''https://ark.cn-beijing.volces.com/api/v3'',
            video_output_dir = getenv env ''VIDEO_OUTPUT_DIR'' ''videos'',
            default_scene_count = dsc,
            video_resolution = getenv env ''VIDEO_RESOLUTION'' ''720p'',
            video_style = getenv env ''VIDEO_STYLE'' ''realistic'',
            note_type = nt,
            sort_cfg = so,
            total_number = tn,
            log_level = getenv env ''LOG_LEVEL'' ''INFO'',
            request_timeout = rt,
            max_retries_cfg = mr\<rparr>"
    by (intro get_config_returns) simp_all
qed

theorem get_config_fail_fast_witness:
  "get_config dec_int ascii_upper env_minimal = Inr default_config
   \<and> get_config dec_int ascii_upper env_bad_note_type = Inl BadNoteType
   \<and> main dec_int ascii_upper env_bad_note_type ''productivity'' echo_workflow
       = ConfigErrorPrinted BadNoteType"
proof -
  have ev: "getenv env_minimal ''DEFAULT_SCENE_COUNT'' ''3'' = ''3''"
    "getenv env_minimal ''NOTE_TYPE'' ''2'' = ''2''"
    "getenv env_minimal ''SORT'' ''2'' = ''2''"
    "getenv env_minimal ''TOTAL_NUMBER'' ''2'' = ''2''"
    "getenv env_minimal ''REQUEST_TIMEOUT'' ''30'' = ''30''"
    "getenv env_minimal ''MAX_RETRIES'' ''3'' = ''3''"
    "getenv env_minimal ''LOG_LEVEL'' ''INFO'' = ''INFO''"
    by (simp_all add: getenv_def env_minimal_def env_required_def)
  have ints: "dec_int ''3'' = Some 3" "dec_int ''2'' = Some 2" "dec_int ''30'' = Some 30"
    by (simp_all add: dec_int_def digit_val_def)
  have req: "\<forall>k \<in> set required_configs. \<not> not_set env_minimal k"
    by (simp add: required_configs_def not_set_def env_minimal_def env_required_def)
  have lvl: "ascii_upper ''INFO'' \<in> set valid_log_levels"
    by (simp add: ascii_upper_def valid_log_levels_def)
  have bad: "dec_int (getenv env_bad_note_type ''NOTE_TYPE'' ''2'') = Some 5"
    by (simp add: getenv_def env_bad_note_type_def dec_int_def digit_val_def)
  have eval: "get_config dec_int ascii_upper env_bad_note_type = Inl BadNoteType"
    by (simp add: get_config_def to_int_def Let_def validate_config_def env_bad_note_type_def
          env_required_def getenv_def not_set_def required_configs_def dec_int_def digit_val_def)
  from get_config_fail_fast
         [of env_minimal dec_int ascii_upper "''productivity''" echo_workflow 3 2 2 2 30 3,
          THEN conjunct2]
       get_config_fail_fast
         [of env_bad_note_type dec_int ascii_upper "''productivity''" echo_workflow,
          THEN conjunct1]
       ev ints req lvl bad eval
  show ?thesis
    by (simp add: default_config_def getenv_def env_minimal_def env_required_def)
qed

text \<open>
  C9, as stated, fails for the number of retries: \<open>MAX_RETRIES=0\<close> is not positive, and
  \<open>get_config\<close> accepts it, since \<open>_validate_config\<close> rejects negative values only.
\<close>

theorem get_config_zero_retries_counterexample:
  "get_config dec_int ascii_upper env_no_retries
     = Inr (default_config\<lparr>log_level := ''debug'', max_retries_cfg := 0\<rparr>)"
  by (simp add: get_config_def to_int_def Let_def validate_config_def env_no_retries_def
        env_required_def getenv_def not_set_def required_configs_def dec_int_def digit_val_def
        ascii_upper_def valid_log_levels_def default_config_def)

section \<open>Properties of the storyboard generator\<close>

lemma find_char_ge: "- 1 \<le> find_char c s"
  by (induction s) (auto simp: Let_def)

lemma find_char_notin: "find_char c s = - 1 \<longleftrightarrow> c \<notin> set s"
proof (induction s)
  case Nil
  then show ?case by simp
next
  case (Cons x xs)
  have "- 1 \<le> find_char c xs" by (rule find_char_ge)
  with Cons show ?case by (auto simp: Let_def)
qed

lemma find_char_lt: "find_char c s < int (length s)"
  by (induction s) (auto simp: Let_def)

lemma rfind_char_notin: "rfind_char c s + 1 = 0 \<longleftrightarrow> c \<notin> set s"
proof -
  have "find_char c (rev s) < int (length (rev s))" by (rule find_char_lt)
  then have "find_char c (rev s) < int (length s)" by simp
  moreover have "find_char c (rev s) = - 1 \<longleftrightarrow> c \<notin> set s"
    by (simp add: find_char_notin)
  ultimately show ?thesis by (auto simp: rfind_char_def Let_def)
qed

lemma build_scenes_length:
  "build_scenes items acc = Inr scenes \<Longrightarrow> length scenes = length acc + length items"
  by (induction items arbitrary: acc) (auto split: json.splits)

lemma build_scenes_objects:
  "\<forall>x \<in> set items. \<exists>kvs. x = JObj kvs \<Longrightarrow> \<exists>scenes. build_scenes items acc = Inr scenes"
  by (induction items arbitrary: acc) auto

lemma parse_never_raises:
  "\<exists>scenes logged. parse_storyboard_response loads response = Inr (scenes, logged)"
  by (cases "parse_try loads response")
     (auto simp: parse_storyboard_response_def split: py_exn.splits)

lemma build_scenes_map:
  "build_scenes items acc = Inr scenes \<Longrightarrow>
   \<exists>fs. items = map JObj fs \<and> scenes = acc @ map scene_of_fields fs"
proof (induction items arbitrary: acc)
  case Nil
  then show ?case by simp
next
  case (Cons x items)
  from Cons.prems obtain kvs where x: "x = JObj kvs"
    and rest: "build_scenes items (acc @ [scene_of_fields kvs]) = Inr scenes"
    by (cases x) auto
  from Cons.IH [OF rest] obtain fs where
    "items = map JObj fs" "scenes = (acc @ [scene_of_fields kvs]) @ map scene_of_fields fs"
    by blast
  with x have "x # items = map JObj (kvs # fs) \<and> scenes = acc @ map scene_of_fields (kvs # fs)"
    by simp
  then show ?case by (intro exI [of _ "kvs # fs"])
qed

lemma build_scenes_of_map:
  "build_scenes (map JObj fs) acc = Inr (acc @ map scene_of_fields fs)"
  by (induction fs arbitrary: acc) auto

lemma iterate_objects:
  assumes "iterate v = Inr (map JObj fs)" and "fs \<noteq> []"
  shows "v = JArr (map JObj fs)"
proof (cases v)
  case (JStr s)
  with assms(1) have "map (\<lambda>c. JStr [c]) s = map JObj fs" by (simp add: iterate_def)
  with assms(2) show ?thesis by (cases s; cases fs) auto
next
  case (JObj kvs)
  with assms(1) have "map (\<lambda>kv. JStr (fst kv)) kvs = map JObj fs" by (simp add: iterate_def)
  with assms(2) show ?thesis by (cases kvs; cases fs) auto
qed (use assms(1) in \<open>auto simp: iterate_def\<close>)

lemma parse_try_scenes:
  assumes "parse_try loads response = Inr (scenes, logged)" and "scenes \<noteq> []"
  shows "\<exists>text kvs fs. response = JStr text
           \<and> loads (payload text) = Some (JObj kvs)
           \<and> map_of kvs ''scenes'' = Some (JArr (map JObj fs))
           \<and> scenes = map scene_of_fields fs"
proof -
  from assms(1) obtain t where r: "response = JStr t"
    by (cases response) (auto simp: parse_try_def)
  from assms r obtain data v items where
    ld: "loads (payload t) = Some data"
    and dg: "dict_get data ''scenes'' (JArr []) = Inr v"
    and it: "iterate v = Inr items"
    and bs: "build_scenes items [] = Inr scenes"
    by (auto simp: parse_try_def payload_def Let_def
             split: if_splits option.splits sum.splits)
  from build_scenes_map [OF bs] obtain fs where
    fs: "items = map JObj fs" "scenes = map scene_of_fields fs" by auto
  with assms(2) have ne: "fs \<noteq> []" by auto
  from it fs(1) have "iterate v = Inr (map JObj fs)" by simp
  from iterate_objects [OF this ne] have v: "v = JArr (map JObj fs)" .
  from dg obtain kvs where d: "data = JObj kvs"
    by (cases data) (auto simp: dict_get_def)
  with dg v ne have "map_of kvs ''scenes'' = Some (JArr (map JObj fs))"
    by (cases fs) (auto simp: dict_get_def split: option.splits)
  with r ld d fs(2) show ?thesis by blast
qed

lemma parse_scenes:
  assumes "parse_storyboard_response loads response = Inr (scenes, logged)"
    and "scenes \<noteq> []"
  shows "parse_try loads response = Inr (scenes, logged)"
  using assms
  by (cases "parse_try loads response")
     (auto simp: parse_storyboard_response_def split: py_exn.splits)

lemma parse_of_payload:
  assumes "CHR ''{'' \<in> set text" and "CHR ''}'' \<in> set text"
    and "loads (payload text) = Some (JObj kvs)"
    and "map_of kvs ''scenes'' = Some (JArr (map JObj fs))"
  shows "parse_storyboard_response loads (JStr text) = Inr (map scene_of_fields fs, [])"
proof -
  from assms(1) have a: "find_char CHR ''{'' text \<noteq> - 1" by (simp add: find_char_notin)
  from assms(2) have b: "rfind_char CHR ''}'' text + 1 \<noteq> 0" by (simp add: rfind_char_notin)
  from assms(3) have
    c: "loads (slice text (find_char CHR ''{'' text) (rfind_char CHR ''}'' text + 1))
        = Some (JObj kvs)"
    by (simp add: payload_def)
  have "parse_try loads (JStr text) = Inr (map scene_of_fields fs, [])"
    using a b c assms(4)
    by (simp add: parse_try_def Let_def dict_get_def iterate_def build_scenes_of_map)
  then show ?thesis by (simp add: parse_storyboard_response_def)
qed

lemma generate_storyboard_total:
  "\<exists>scenes. generate_storyboard llm loads content n = Inr scenes"
proof (cases "llm content n")
  case HttpRaised
  then show ?thesis by (simp add: generate_storyboard_def)
next
  case (HttpReply status body)
  show ?thesis
  proof (cases "status = 200")
    case False
    with HttpReply show ?thesis by (simp add: generate_storyboard_def)
  next
    case True
    show ?thesis
    proof (cases body)
      case None
      with HttpReply True show ?thesis by (simp add: generate_storyboard_def)
    next
      case (Some result)
      show ?thesis
      proof (cases "message_content result")
        case (Inl e)
        with HttpReply True Some show ?thesis by (simp add: generate_storyboard_def)
      next
        case (Inr st)
        from parse_never_raises obtain scenes logged where
          "parse_storyboard_response loads st = Inr (scenes, logged)" by blast
        with HttpReply True Some Inr show ?thesis by (simp add: generate_storyboard_def)
      qed
    qed
  qed
qed

text \<open>
  C6. Whatever the collaborator's response is, \<open>_parse_storyboard_response\<close> returns and
  does not raise, and so does \<open>generate_storyboard\<close>. A text without \<open>{\<close> or without
  \<open>}\<close> gives the empty scene list; a text whose located payload \<open>json.loads\<close> rejects
  gives the empty scene list, with the decoding error logged.
\<close>

theorem parse_storyboard_response_total:
  "(\<exists>scenes logged. parse_storyboard_response loads response = Inr (scenes, logged))
   \<and> (CHR ''{'' \<notin> set text \<or> CHR ''}'' \<notin> set text
        \<longrightarrow> parse_storyboard_response loads (JStr text) = Inr ([], [NoJsonFound]))
   \<and> (CHR ''{'' \<in> set text \<and> CHR ''}'' \<in> set text \<and> loads (payload text) = None
        \<longrightarrow> parse_storyboard_response loads (JStr text) = Inr ([], [JsonDecodeFailed]))
   \<and> (\<exists>scenes. generate_storyboard llm loads content n = Inr scenes)"
proof (intro conjI impI)
  show "\<exists>scenes logged. parse_storyboard_response loads response = Inr (scenes, logged)"
    by (rule parse_never_raises)
next
  assume "CHR ''{'' \<notin> set text \<or> CHR ''}'' \<notin> set text"
  then have "find_char CHR ''{'' text = - 1 \<or> rfind_char CHR ''}'' text + 1 = 0"
    by (simp only: find_char_notin rfind_char_notin)
  then have "parse_try loads (JStr text) = Inr ([], [NoJsonFound])"
    by (auto simp: parse_try_def Let_def)
  then show "parse_storyboard_response loads (JStr text) = Inr ([], [NoJsonFound])"
    by (simp add: parse_storyboard_response_def)
next
  assume a: "CHR ''{'' \<in> set text \<and> CHR ''}'' \<in> set text \<and> loads (payload text) = None"
  then have "find_char CHR ''{'' text \<noteq> - 1" "rfind_char CHR ''}'' text + 1 \<noteq> 0"
    by (simp_all add: find_char_notin rfind_char_notin)
  with a have "parse_try loads (JStr text) = Inl JSONDecodeError"
    by (simp add: parse_try_def Let_def payload_def)
  then show "parse_storyboard_response loads (JStr text) = Inr ([], [JsonDecodeFailed])"
    by (simp add: parse_storyboard_response_def)
next
  show "\<exists>scenes. generate_storyboard llm loads content n = Inr scenes"
    by (rule generate_storyboard_total)
qed

theorem parse_storyboard_response_total_witness:
  "parse_storyboard_response loads_of (JStr ''Sorry, I cannot help.'') = Inr ([], [NoJsonFound])
   \<and> parse_storyboard_response loads_of (JStr ''{scenes: oops}'') = Inr ([], [JsonDecodeFailed])"
proof -
  have a: "CHR ''{'' \<notin> set ''Sorry, I cannot help.'' \<or> CHR ''}'' \<notin> set ''Sorry, I cannot help.''"
    by simp
  have b: "CHR ''{'' \<in> set ''{scenes: oops}'' \<and> CHR ''}'' \<in> set ''{scenes: oops}''
           \<and> loads_of (payload ''{scenes: oops}'') = None"
    by (simp add: payload_def rfind_char_def slice_def loads_of_def four_payload_def
          two_text_def Let_def)
  from parse_storyboard_response_total
         [of loads_of JNull "''Sorry, I cannot help.''" llm_two "''note''" 3,
          THEN conjunct2, THEN conjunct1]
       parse_storyboard_response_total
         [of loads_of JNull "''{scenes: oops}''" llm_two "''note''" 3,
          THEN conjunct2, THEN conjunct2, THEN conjunct1]
       a b
  show ?thesis by blast
qed

text \<open>
  C7 (as amended). \<open>generate_storyboard\<close> never pads: the scenes it returns are either
  none, or exactly the scenes built, in order, from the entries of the \<open>scenes\<close> array
  of the payload located in the reply; and whenever the reply carries such a payload whose
  entries are all objects, it returns as many scenes as the array has entries, whatever
  number \<open>n\<close> of scenes was requested.
\<close>

theorem generate_storyboard_never_padded:
  "(\<exists>scenes. generate_storyboard llm loads content n = Inr scenes
      \<and> (scenes = []
          \<or> (\<exists>result text kvs fs.
                llm content n = HttpReply 200 (Some result)
                \<and> message_content result = Inr (JStr text)
                \<and> loads (payload text) = Some (JObj kvs)
                \<and> map_of kvs ''scenes'' = Some (JArr (map JObj fs))
                \<and> scenes = map scene_of_fields fs)))
   \<and> (llm content n = HttpReply 200 (Some result)
        \<and> message_content result = Inr (JStr text)
        \<and> CHR ''{'' \<in> set text \<and> CHR ''}'' \<in> set text
        \<and> loads (payload text) = Some (JObj kvs)
        \<and> map_of kvs ''scenes'' = Some (JArr (map JObj fs))
      \<longrightarrow> (\<exists>scenes. generate_storyboard llm loads content n = Inr scenes
             \<and> scenes = map scene_of_fields fs \<and> length scenes = length fs))"
proof (intro conjI impI)
  from generate_storyboard_total obtain scenes where
    g: "generate_storyboard llm loads content n = Inr scenes" by blast
  show "\<exists>scenes. generate_storyboard llm loads content n = Inr scenes
      \<and> (scenes = []
          \<or> (\<exists>result text kvs fs.
                llm content n = HttpReply 200 (Some result)
                \<and> message_content result = Inr (JStr text)
                \<and> loads (payload text) = Some (JObj kvs)
                \<and> map_of kvs ''scenes'' = Some (JArr (map JObj fs))
                \<and> scenes = map scene_of_fields fs))"
  proof (cases "scenes = []")
    case True
    with g show ?thesis by blast
  next
    case False
    with g obtain result st logged where
      r: "llm content n = HttpReply 200 (Some result)"
      and m: "message_content result = Inr st"
      and p: "parse_storyboard_response loads st = Inr (scenes, logged)"
      by (auto simp: generate_storyboard_def
               split: http_reply.splits option.splits sum.splits prod.splits if_splits)
    from parse_scenes [OF p False] have "parse_try loads st = Inr (scenes, logged)" .
    from parse_try_scenes [OF this False] obtain t kvs fs where
      "st = JStr t" "loads (payload t) = Some (JObj kvs)"
      "map_of kvs ''scenes'' = Some (JArr (map JObj fs))" "scenes = map scene_of_fields fs"
      by blast
    with g r m show ?thesis by blast
  qed
next
  assume a: "llm content n = HttpReply 200 (Some result)
        \<and> message_content result = Inr (JStr text)
        \<and> CHR ''{'' \<in> set text \<and> CHR ''}'' \<in> set text
        \<and> loads (payload text) = Some (JObj kvs)
        \<and> map_of kvs ''scenes'' = Some (JArr (map JObj fs))"
  then have h: "CHR ''{'' \<in> set text" "CHR ''}'' \<in> set text"
    "loads (payload text) = Some (JObj kvs)"
    "map_of kvs ''scenes'' = Some (JArr (map JObj fs))"
    by simp_all
  have "parse_storyboard_response loads (JStr text) = Inr (map scene_of_fields fs, [])"
    using h by (rule parse_of_payload)
  with a show "\<exists>scenes. generate_storyboard llm loads content n = Inr scenes
                 \<and> scenes = map scene_of_fields fs \<and> length scenes = length fs"
    by (simp add: generate_storyboard_def)
qed

theorem generate_storyboard_never_padded_witness:
  "generate_storyboard llm_two loads_of ''note'' 3
     = Inr [default_scene\<lparr>scene_id := JStr ''scene_1''\<rparr>, default_scene\<lparr>duration := JInt 5\<rparr>]"
proof -
  have a: "llm_two ''note'' 3 = HttpReply 200 (Some (chat_reply two_text))"
    by (simp add: llm_two_def)
  have b: "message_content (chat_reply two_text) = Inr (JStr two_text)"
    by (simp add: message_content_def chat_reply_def getitem_key_def getitem_0_def)
  have c: "CHR ''{'' \<in> set two_text \<and> CHR ''}'' \<in> set two_text"
    by (simp add: two_text_def)
  have p: "payload two_text = two_text"
    by (simp add: payload_def two_text_def rfind_char_def slice_def Let_def)
  have d: "loads_of (payload two_text)
           = Some (JObj [(''scenes'',
               JArr (map JObj [[(''scene_id'', JStr ''scene_1'')], [(''duration'', JInt 5)]]))])"
    unfolding p by (simp add: loads_of_def two_text_def four_payload_def)
  have e: "map_of [(''scenes'',
               JArr (map JObj [[(''scene_id'', JStr ''scene_1'')], [(''duration'', JInt 5)]]))]
             ''scenes''
           = Some (JArr (map JObj [[(''scene_id'', JStr ''scene_1'')], [(''duration'', JInt 5)]]))"
    by simp
  from generate_storyboard_never_padded
         [of llm_two loads_of "''note''" 3 "chat_reply two_text" two_text
             "[(''scenes'',
                JArr (map JObj [[(''scene_id'', JStr ''scene_1'')], [(''duration'', JInt 5)]]))]"
             "[[(''scene_id'', JStr ''scene_1'')], [(''duration'', JInt 5)]]",
          THEN conjunct2]
       a b c d e
  show ?thesis
    by (simp add: scene_of_fields_def field_def default_scene_def)
qed

text \<open>
  C7, as stated, fails: nothing compares the number of scenes with the requested count.
  A reply whose payload lists four scenes yields four scenes for \<open>n = 3\<close>.
\<close>

theorem generate_storyboard_longer_counterexample:
  "generate_storyboard llm_four loads_of ''note'' 3
     = Inr [default_scene, default_scene, default_scene, default_scene]"
  by (simp add: generate_storyboard_def llm_four_def chat_reply_def message_content_def
        getitem_key_def getitem_0_def parse_storyboard_response_def parse_try_def Let_def
        four_text_def rfind_char_def slice_def loads_of_def four_payload_def dict_get_def
        iterate_def scene_of_fields_def field_def default_scene_def)

section \<open>Properties of DoubaoSeedanceAPI\<close>

text \<open>
  What does hold of every outcome of \<open>generate_video\<close>: its status is \<open>success\<close> or
  \<open>failed\<close>; a successful one carries the video URL and the elapsed time; a failed one
  carries an error description.
\<close>

lemma generate_video_fields:
  "(status (generate_video io scene dir) = ''success''
      \<or> status (generate_video io scene dir) = ''failed'')
   \<and> (status (generate_video io scene dir) = ''success''
        \<longrightarrow> video_url (generate_video io scene dir) \<noteq> JNull
          \<and> generation_time (generate_video io scene dir) \<noteq> None)
   \<and> (status (generate_video io scene dir) = ''failed''
        \<longrightarrow> error_message (generate_video io scene dir) \<noteq> None)"
  by (auto simp: generate_video_def failed_def Let_def
           split: option.splits sum.splits post_outcome.splits)

text \<open>
  C8 fails on the local path. When the synthesis service delivers a video URL and the
  download of it answers 404, \<open>_download_video\<close> returns \<open>None\<close> and
  \<open>generate_video\<close> reports \<open>success\<close> with no local artifact path.
\<close>

theorem generate_video_success_without_path:
  "generate_video io_download_404 scene_1 ''videos''
     = \<lparr>result_scene_id = JStr ''scene_1'', status = ''success'',
        video_url = JStr ''https://cdn.example/v.mp4'', video_path = None,
        error_message = None, generation_time = Some 42\<rparr>"
  by (simp add: generate_video_def io_download_404_def scene_1_def default_scene_def
        build_video_prompt_def join_elements_def iterate_def dict_get_def download_video_def
        post_with_url_def makedirs_ok_def fetch_404_def Let_def)

section \<open>Properties of WorkflowProcessor\<close>

lemma item_results_Cons:
  "item_results io config i (n # ns) =
     (case fst (process_note io config i n) of None \<Rightarrow> [] | Some r \<Rightarrow> [r])
     @ item_results io config (Suc i) ns"
  by (simp add: item_results_def List.map_filter_simps split: option.splits)

lemma item_logs_Cons:
  "item_logs io config i (n # ns) =
     snd (process_note io config i n) @ item_logs io config (Suc i) ns"
  by (simp add: item_logs_def)

lemma process_notes_eq:
  "process_notes io config i ns results logged
     = (results @ item_results io config i ns, logged @ item_logs io config i ns)"
proof (induction ns arbitrary: i results logged)
  case Nil
  then show ?case by (simp add: item_results_def item_logs_def List.map_filter_simps)
next
  case (Cons n ns)
  obtain r l where p: "process_note io config i n = (r, l)" by (cases "process_note io config i n")
  show ?case
  proof (cases r)
    case None
    with p Cons.IH show ?thesis by (simp add: item_results_Cons item_logs_Cons)
  next
    case (Some res)
    with p Cons.IH show ?thesis by (simp add: item_results_Cons item_logs_Cons)
  qed
qed


lemma length_item_results: "length (item_results io config i ns) \<le> length ns"
proof (induction ns arbitrary: i)
  case Nil
  then show ?case by (simp add: item_results_def List.map_filter_simps)
next
  case (Cons x xs)
  have "length (item_results io config (Suc i) xs) \<le> length xs" by (rule Cons.IH)
  then show ?case by (simp add: item_results_Cons split: option.splits)
qed

lemmas workflow_eval =
  process_workflow_def process_note_def video_step_def getitem_key_def
  search_three_def three_notes_def mk_note_def rewrite_ok_def video_none_def
  no_scenes_def notion_ok_def body_of_def result_of_def Let_def


lemma process_workflow_found:
  assumes "wf_search io keyword (note_type config) (sort_cfg config) (total_number config)
           = Inr ns"
    and "ns \<noteq> []"
  shows "process_workflow io config keyword
         = (\<lparr>report_success = True,
             report_message = ProcessedNotes (length (item_results io config 0 ns)),
             report_results = Some (item_results io config 0 ns)\<rparr>,
            item_logs io config 0 ns)"
  using assms by (simp add: process_workflow_def process_notes_eq)

text \<open>
  C1 (as amended). Whenever the search returns at least one note, the report's success
  flag is true, its results are the results of the items that got through their own
  processing (possibly none), and its message carries their number.
\<close>

theorem process_workflow_success_flag:
  assumes "wf_search io keyword (note_type config) (sort_cfg config) (total_number config)
           = Inr ns"
    and "ns \<noteq> []"
  shows "report_success (fst (process_workflow io config keyword))
       \<and> report_results (fst (process_workflow io config keyword))
           = Some (item_results io config 0 ns)
       \<and> report_message (fst (process_workflow io config keyword))
           = ProcessedNotes (length (item_results io config 0 ns))
       \<and> length (item_results io config 0 ns) \<le> length ns"
  using process_workflow_found [OF assms] length_item_results [of io config 0 ns]
  by simp

theorem process_workflow_success_flag_witness:
  "report_success (fst (process_workflow io_all_readable default_config ''productivity''))
   \<and> report_message (fst (process_workflow io_all_readable default_config ''productivity''))
       = ProcessedNotes 3"
proof -
  have a: "wf_search io_all_readable ''productivity'' (note_type default_config)
             (sort_cfg default_config) (total_number default_config) = Inr three_notes"
    by (simp add: io_all_readable_def search_three_def)
  have b: "three_notes \<noteq> []" by (simp add: three_notes_def)
  have c: "process_workflow io_all_readable default_config ''productivity''
           = (\<lparr>report_success = True, report_message = ProcessedNotes 3,
               report_results = Some [result_of ''n1'' ''first'', result_of ''n2'' ''second'',
                                      result_of ''n3'' ''third'']\<rparr>,
              [ItemDone ''first'', ItemDone ''second'', ItemDone ''third''])"
    by (simp add: workflow_eval io_all_readable_def read_all_def)
  from process_workflow_success_flag [OF a b] c show ?thesis by simp
qed

text \<open>
  C1, as stated, fails: when the only note found cannot be read, no item completes any
  stage, and the report still says success, with a message counting 0 notes.
\<close>

theorem process_workflow_no_item_counterexample:
  "process_workflow io_unreadable default_config ''productivity''
     = (\<lparr>report_success = True, report_message = ProcessedNotes 0, report_results = Some []\<rparr>,
        [CannotRead ''https://www.xiaohongshu.com/explore/n1''])"
  by (simp add: workflow_eval io_unreadable_def search_one_def read_none_def)




end
